theory Spec2Isabelle
  imports Complex_Main "HOL-Library.AList"
begin

section \<open>Cells and the string primitives of the validator\<close>

text \<open>
  A worksheet cell as \<^verbatim>\<open>iter_rows(values_only=True)\<close> hands it over: \<^verbatim>\<open>None\<close>, a text
  or a number. Numbers are integers here; float, date and boolean cells are left out, their
  text form being the interpreter's. A number is rendered as \<^verbatim>\<open>str\<close> renders it, also
  where pandas would hold a column of numbers and nulls as floats. Strings are byte lists,
  so only ASCII white space is stripped.
\<close>

datatype cell = CNone | CStr string | CInt int

text \<open>Python truthiness, as used by \<^verbatim>\<open>any(row)\<close> and \<^verbatim>\<open>if cell\<close>.\<close>

definition truthy :: "cell \<Rightarrow> bool" where
  "truthy c = (case c of CNone \<Rightarrow> False | CStr s \<Rightarrow> s \<noteq> [] | CInt n \<Rightarrow> n \<noteq> 0)"

definition any_row :: "cell list \<Rightarrow> bool" where
  "any_row row = list_ex truthy row"

text \<open>\<^verbatim>\<open>Series.notna()\<close> on one cell.\<close>

definition notna :: "cell \<Rightarrow> bool" where
  "notna c = (c \<noteq> CNone)"

definition digit_char :: "nat \<Rightarrow> char" where
  "digit_char d = ''0123456789'' ! (d mod 10)"

function str_nat :: "nat \<Rightarrow> string" where
  "str_nat n = (if n < 10 then [digit_char n] else str_nat (n div 10) @ [digit_char n])"
  by pat_completeness auto
termination
  by (relation "measure (\<lambda>n. n)") auto

declare str_nat.simps [simp del]

definition str_int :: "int \<Rightarrow> string" where
  "str_int i = (if i < 0 then CHR ''-'' # str_nat (nat (- i)) else str_nat (nat i))"

text \<open>\<^verbatim>\<open>str(cell)\<close>.\<close>

definition py_str :: "cell \<Rightarrow> string" where
  "py_str c = (case c of CNone \<Rightarrow> ''None'' | CStr s \<Rightarrow> s | CInt n \<Rightarrow> str_int n)"

text \<open>\<^verbatim>\<open>s.startswith(p)\<close>, \<^verbatim>\<open>p in s\<close>, \<^verbatim>\<open>s.endswith(p)\<close>.\<close>

definition startswith :: "string \<Rightarrow> string \<Rightarrow> bool" where
  "startswith s p = (take (length p) s = p)"

fun contains :: "string \<Rightarrow> string \<Rightarrow> bool" where
  "contains p [] = (p = [])"
| "contains p (c # cs) = (startswith (c # cs) p \<or> contains p cs)"

definition endswith :: "string \<Rightarrow> string \<Rightarrow> bool" where
  "endswith s p = startswith (rev s) (rev p)"

text \<open>\<^verbatim>\<open>sep.join(xs)\<close>.\<close>

fun join :: "string \<Rightarrow> string list \<Rightarrow> string" where
  "join sep [] = []"
| "join sep [x] = x"
| "join sep (x # y # ys) = x @ sep @ join sep (y # ys)"

definition is_space :: "char \<Rightarrow> bool" where
  "is_space c = (c \<in> set [CHR '' '', CHR 0x09, CHR 0x0A, CHR 0x0B, CHR 0x0C, CHR 0x0D,
                            CHR 0x1C, CHR 0x1D, CHR 0x1E, CHR 0x1F])"

definition strip :: "string \<Rightarrow> string" where
  "strip s = rev (dropWhile is_space (rev (dropWhile is_space s)))"

text \<open>\<^verbatim>\<open>name.split('_')[0]\<close>: the text before the first underscore.\<close>

definition split_first :: "string \<Rightarrow> string" where
  "split_first s = takeWhile (\<lambda>c. c \<noteq> CHR ''_'') s"

definition lower_char :: "char \<Rightarrow> char" where
  "lower_char c =
     (case map_of (zip ''ABCDEFGHIJKLMNOPQRSTUVWXYZ'' ''abcdefghijklmnopqrstuvwxyz'') c of
        Some l \<Rightarrow> l | None \<Rightarrow> c)"

text \<open>The regular expression \<^verbatim>\<open>^https?://\<close> searched with \<^verbatim>\<open>case=False\<close>.\<close>

definition has_http_prefix :: "string \<Rightarrow> bool" where
  "has_http_prefix s =
     (let l = map lower_char s in startswith l ''http://'' \<or> startswith l ''https://'')"

section \<open>Library behaviour taken as a parameter\<close>

text \<open>
  What the validator gets from pandas and from the interpreter and what is not fixed by the
  repository: whether \<^verbatim>\<open>pd.to_numeric(..., errors='coerce')\<close> turns a non-null cell into a
  number, the order in which a Python \<^verbatim>\<open>set\<close> of the given distinct strings iterates, and
  the float renderings \<^verbatim>\<open>round(x, 3)\<close>, \<^verbatim>\<open>'.1%'\<close> and \<^verbatim>\<open>'.1f'\<close>. Ratios are exact
  rationals.
\<close>

record pylib =
  to_numeric :: "cell \<Rightarrow> bool"
  set_order :: "string list \<Rightarrow> string list"
  round3 :: "rat \<Rightarrow> rat"
  percent1 :: "rat \<Rightarrow> string"
  fixed1 :: "rat \<Rightarrow> string"

section \<open>Template schemas\<close>

record targets =
  min_enhanced_orgs :: nat
  min_fields_per_org :: nat
  min_new_orgs :: nat

record template_schema =
  required_fields :: "string list"
  optional_fields :: "string list"
  dropdowns :: "(string \<times> string list) list"
  sheet_name :: string
  two_tab :: bool
  enhancement_targets :: "targets option"

definition COMPLETENESS_TARGET :: rat where
  "COMPLETENESS_TARGET = 95 / 100"

text \<open>The registry \<^verbatim>\<open>TEMPLATE_SCHEMAS\<close>, in the order of the dictionary literal.\<close>

definition schema_1_Organization_Registry :: template_schema where
  "schema_1_Organization_Registry = \<lparr>
     required_fields =
       [''Organization_ID'', ''Organization_Name'', ''Type'', ''Country'',
        ''NUTS2_Region'', ''City'', ''Website'', ''Specialization''],
     optional_fields =
       [''Size'', ''Employees'', ''Founded_Year'', ''Annual_Revenue'',
        ''EU_Projects_Count'', ''Total_EU_Funding'', ''Key_Assets'',
        ''Innovation_Outputs'', ''Digital_Capacity'',
        ''Sustainability_Focus'', ''Regional_Partnerships'', ''Market_Reach'',
        ''Contact_Email'', ''Notes''],
     dropdowns =
       [(''Type'',
         [''University'', ''Research_Center'', ''SME'', ''Large_Company'',
          ''Hospital'', ''Government_Agency'', ''NGO'', ''Innovation_Hub'',
          ''Cluster_Organization'', ''NGO_Association'', ''Other'']),
        (''Country'',
         [''PT'', ''EL'', ''LT'', ''BG'', ''FR'', ''DK'', ''SE'']),
        (''NUTS2_Region'',
         [''PT16'', ''EL54'', ''LT01'', ''BG41'', ''FR10'', ''DK01'', ''SE12'']),
        (''Digital_Capacity'',
         [''High'', ''Medium'', ''Low'', ''None'', '''']),
        (''Sustainability_Focus'',
         [''High'', ''Medium'', ''Low'', ''None'', ''''])],
     sheet_name = ''Your Input'',
     two_tab = True,
     enhancement_targets =
       Some \<lparr>min_enhanced_orgs = 30, min_fields_per_org = 3, min_new_orgs = 10\<rparr>\<rparr>"

definition schema_2_Stakeholder_Mapping :: template_schema where
  "schema_2_Stakeholder_Mapping = \<lparr>
     required_fields =
       [''Stakeholder_ID'', ''Name'', ''Organization'', ''Role'',
        ''Influence'', ''Interest''],
     optional_fields =
       [''Email'', ''Phone'', ''Engagement_Type'', ''Current_Relationship'',
        ''Engagement_History'', ''Notes''],
     dropdowns =
       [(''Role'',
         [''Researcher'', ''Clinician'', ''Industry_Executive'',
          ''Policy_Maker'', ''Investor'', ''Entrepreneur'',
          ''Patient_Advocate'', ''NGO_Representative'', ''Other'']),
        (''Influence'',
         [''High'', ''Medium'', ''Low'']),
        (''Interest'',
         [''High'', ''Medium'', ''Low'']),
        (''Engagement_Type'',
         [''Active_Collaboration'', ''Consultation'', ''Information_Sharing'',
          ''Monitoring''])],
     sheet_name = ''Stakeholder Mapping'',
     two_tab = False,
     enhancement_targets = None\<rparr>"

definition schema_3_Value_Chain_Mapping :: template_schema where
  "schema_3_Value_Chain_Mapping = \<lparr>
     required_fields =
       [''Chain_ID'', ''Chain_Name'', ''Description'', ''Stage'',
        ''Key_Actors''],
     optional_fields =
       [''Technology_Drivers'', ''Bottlenecks'', ''Opportunities'',
        ''Growth_Potential'', ''Regional_Advantage'', ''Notes''],
     dropdowns =
       [(''Stage'',
         [''Research'', ''Development'', ''Clinical_Trials'',
          ''Manufacturing'', ''Distribution'', ''Market_Access'',
          ''Post-Market'']),
        (''Growth_Potential'',
         [''High'', ''Medium'', ''Low''])],
     sheet_name = ''Value Chain Mapping'',
     two_tab = False,
     enhancement_targets = None\<rparr>"

definition schema_4_Funding_Sources :: template_schema where
  "schema_4_Funding_Sources = \<lparr>
     required_fields =
       [''Funding_ID'', ''Program_Name'', ''Type'', ''Source_Organization'',
        ''Level''],
     optional_fields =
       [''Budget_Range'', ''Call_Frequency'', ''Eligibility'',
        ''Success_Rate'', ''Application_Deadline'', ''Website'', ''Contact'',
        ''Notes''],
     dropdowns =
       [(''Type'',
         [''Grant'', ''Loan'', ''Equity'', ''Tax_Incentive'', ''Prize'',
          ''Other'']),
        (''Level'',
         [''EU'', ''National'', ''Regional'', ''Private'', ''Mixed'']),
        (''Call_Frequency'',
         [''Annual'', ''Bi-annual'', ''Quarterly'', ''Rolling'', ''One-time''])],
     sheet_name = ''Funding Sources'',
     two_tab = False,
     enhancement_targets = None\<rparr>"

definition schema_5_Focus_Group_Notes :: template_schema where
  "schema_5_Focus_Group_Notes = \<lparr>
     required_fields =
       [''Session_Date'', ''Location'', ''Facilitator'',
        ''Number_of_Participants''],
     optional_fields =
       [''Participant_List'', ''Discussion_Topics'', ''Key_Insights'',
        ''Challenges_Identified'', ''Recommendations'', ''Follow_up_Actions'',
        ''Notes''],
     dropdowns =
       [],
     sheet_name = ''Focus Group Notes'',
     two_tab = False,
     enhancement_targets = None\<rparr>"

definition schema_6_Interview_Summary :: template_schema where
  "schema_6_Interview_Summary = \<lparr>
     required_fields =
       [''Interview_ID'', ''Date'', ''Interviewee_Name'', ''Organization'',
        ''Position'', ''Sector''],
     optional_fields =
       [''Organization_Size'', ''Key_Challenges'', ''Opportunities'',
        ''Innovation_Examples'', ''Collaboration_Needs'', ''Policy_Gaps'',
        ''Investment_Barriers'', ''Success_Factors'', ''Recommendations'',
        ''Notes''],
     dropdowns =
       [(''Sector'',
         [''Research'', ''Industry'', ''Clinical'', ''Policy'',
          ''Investment'', ''NGO'', ''Other'']),
        (''Organization_Size'',
         [''Small'', ''Medium'', ''Large''])],
     sheet_name = ''Interview Summary'',
     two_tab = False,
     enhancement_targets = None\<rparr>"

definition schema_7_Business_Case_Profile :: template_schema where
  "schema_7_Business_Case_Profile = \<lparr>
     required_fields =
       [''Case_ID'', ''Company_Name'', ''Founded_Year'', ''Technology'',
        ''Innovation_Type'', ''Scalability'', ''Impact_Potential''],
     optional_fields =
       [''Founders'', ''Employees'', ''Funding_Stage'', ''Total_Funding'',
        ''Revenue_Model'', ''Target_Market'', ''Key_Partners'',
        ''IP_Portfolio'', ''Clinical_Pipeline'', ''Regulatory_Status'',
        ''Challenges'', ''Support_Needs'', ''Notes''],
     dropdowns =
       [(''Funding_Stage'',
         [''Pre-seed'', ''Seed'', ''Series_A'', ''Series_B'', ''Series_C+'',
          ''Bootstrapped'']),
        (''Innovation_Type'',
         [''Disruptive'', ''Incremental'', ''Platform'', ''Business_Model'']),
        (''Scalability'',
         [''High'', ''Medium'', ''Low'']),
        (''Impact_Potential'',
         [''High'', ''Medium'', ''Low''])],
     sheet_name = ''Business Case Profile'',
     two_tab = False,
     enhancement_targets = None\<rparr>"

definition schema_8_Trend_Brief :: template_schema where
  "schema_8_Trend_Brief = \<lparr>
     required_fields =
       [''Trend_ID'', ''Trend_Name'', ''Description'', ''Technology_Drivers'',
        ''Market_Potential'', ''Regional_Relevance''],
     optional_fields =
       [''Timeframe'', ''Key_Players'', ''Investment_Activity'',
        ''Policy_Support'', ''Barriers'', ''Opportunities'', ''Notes''],
     dropdowns =
       [(''Market_Potential'',
         [''High'', ''Medium'', ''Low'']),
        (''Regional_Relevance'',
         [''High'', ''Medium'', ''Low'']),
        (''Timeframe'',
         [''Near-term_1-2y'', ''Mid-term_3-5y'', ''Long-term_5+y''])],
     sheet_name = ''Trend Brief'',
     two_tab = False,
     enhancement_targets = None\<rparr>"

definition schema_9_Policy_Analysis :: template_schema where
  "schema_9_Policy_Analysis = \<lparr>
     required_fields =
       [''Policy_ID'', ''Policy_Name'', ''Description'',
        ''Impact_Assessment'', ''Implementation_Status''],
     optional_fields =
       [''Notes''],
     dropdowns =
       [(''Implementation_Status'',
         [''Proposed'', ''In_Progress'', ''Implemented'', ''Under_Review''])],
     sheet_name = ''Policy Analysis'',
     two_tab = False,
     enhancement_targets = None\<rparr>"

definition TEMPLATE_SCHEMAS :: "(string \<times> template_schema) list" where
  "TEMPLATE_SCHEMAS =
     [(''1_Organization_Registry'', schema_1_Organization_Registry),
      (''2_Stakeholder_Mapping'', schema_2_Stakeholder_Mapping),
      (''3_Value_Chain_Mapping'', schema_3_Value_Chain_Mapping),
      (''4_Funding_Sources'', schema_4_Funding_Sources),
      (''5_Focus_Group_Notes'', schema_5_Focus_Group_Notes),
      (''6_Interview_Summary'', schema_6_Interview_Summary),
      (''7_Business_Case_Profile'', schema_7_Business_Case_Profile),
      (''8_Trend_Brief'', schema_8_Trend_Brief),
      (''9_Policy_Analysis'', schema_9_Policy_Analysis)]"

text \<open>The empty dictionary that \<^verbatim>\<open>TEMPLATE_SCHEMAS.get(template_type, {})\<close> falls back to,
  read through the defaults of the \<^verbatim>\<open>.get\<close> calls of the checks.\<close>

definition empty_schema :: template_schema where
  "empty_schema = \<lparr>required_fields = [], optional_fields = [], dropdowns = [],
     sheet_name = ''Sheet1'', two_tab = False, enhancement_targets = None\<rparr>"

section \<open>Exceptions\<close>

text \<open>
  \<open>ValueError\<close> and \<open>KeyError\<close> carry the text of \<^verbatim>\<open>str(e)\<close>. \<open>LabelError\<close> stands for
  what pandas raises once a column label occurs twice: \<^verbatim>\<open>df[col]\<close> is then a frame and not a
  column, and at the latest the truth test \<^verbatim>\<open>if df[col].notna().any()\<close> of the quality
  metrics fails.
\<close>

datatype exn = ValueError string | KeyError string | LabelError

definition exn_text :: "exn \<Rightarrow> string" where
  "exn_text e = (case e of ValueError m \<Rightarrow> m | KeyError m \<Rightarrow> m | LabelError \<Rightarrow> ''LabelError'')"

definition then_do :: "exn + 'a \<Rightarrow> ('a \<Rightarrow> exn + 'b) \<Rightarrow> exn + 'b" where
  "then_do r f = (case r of Inl e \<Rightarrow> Inl e | Inr x \<Rightarrow> f x)"

section \<open>Template identification\<close>

definition identify_template :: "string \<Rightarrow> exn + string" where
  "identify_template filename =
     (case find (\<lambda>template_name. startswith filename (split_first template_name))
             (map fst TEMPLATE_SCHEMAS) of
        Some template_name \<Rightarrow> Inr template_name
      | None \<Rightarrow> Inl (ValueError (''Unknown template type: '' @ filename)))"

section \<open>Input files and extracted tables\<close>

text \<open>
  What \<^verbatim>\<open>load_workbook\<close> makes of a file: it raises, with a message, or gives the sheets by
  name, each a list of rows of cells.
\<close>

datatype loaded = Load_failed string | Workbook "(string \<times> cell list list) list"

record input_file =
  file_name :: string
  content :: loaded

record data_frame =
  columns :: "string list"
  rows :: "cell list list"

text \<open>\<^verbatim>\<open>df[field]\<close> for a label that occurs once among the columns.\<close>

definition column :: "data_frame \<Rightarrow> string \<Rightarrow> cell list" where
  "column df field =
     map (\<lambda>r. case map_of (zip (columns df) r) field of Some c \<Rightarrow> c | None \<Rightarrow> CNone) (rows df)"

text \<open>
  \<^verbatim>\<open>pd.DataFrame(data, columns=cols)\<close> for a list of row tuples: short rows are filled with
  nulls up to the longest, and a number of labels other than that width is refused.
\<close>

definition DataFrame :: "cell list list \<Rightarrow> string list \<Rightarrow> exn + data_frame" where
  "DataFrame data cols =
     (if data = [] then Inr \<lparr>columns = cols, rows = []\<rparr>
      else let width = fold max (map length data) 0 in
        if length cols \<noteq> width
        then Inl (ValueError (str_nat (length cols) @ '' columns passed, passed data had ''
                    @ str_nat width @ '' columns''))
        else Inr \<lparr>columns = cols,
                  rows = map (\<lambda>r. r @ replicate (width - length r) CNone) data\<rparr>)"

section \<open>The tabular extractor\<close>

definition header_candidate :: "cell list \<Rightarrow> bool" where
  "header_candidate row =
     (let row_str = join '' '' (map py_str (filter truthy row)) in
        contains ''_ID'' row_str \<or> contains ''_Name'' row_str \<or>
        (contains ''Organization'' row_str \<and> contains ''Type'' row_str))"

definition make_headers :: "cell list \<Rightarrow> string list" where
  "make_headers row =
     map (\<lambda>(i, cell). if truthy cell then strip (py_str cell) else ''Column_'' @ str_nat i)
       (zip [0..<length row] row)"

text \<open>The first loop: the first non-empty row that looks like a header, with its row number.\<close>

fun find_header :: "nat \<Rightarrow> cell list list \<Rightarrow> (string list \<times> nat) option" where
  "find_header idx [] = None"
| "find_header idx (row # rest) =
     (if \<not> any_row row then find_header (Suc idx) rest
      else if header_candidate row then Some (make_headers row, idx)
      else find_header (Suc idx) rest)"

text \<open>The fallback loop: the first non-empty row.\<close>

fun find_fallback :: "nat \<Rightarrow> cell list list \<Rightarrow> (string list \<times> nat) option" where
  "find_fallback idx [] = None"
| "find_fallback idx (row # rest) =
     (if any_row row then Some (make_headers row, idx) else find_fallback (Suc idx) rest)"

text \<open>Both loops together: \<^verbatim>\<open>headers\<close> and \<^verbatim>\<open>header_row_num\<close> as they stand before the data
  rows are read; \<open>([], 0)\<close> when no row qualifies.\<close>

definition locate_header :: "cell list list \<Rightarrow> string list \<times> nat" where
  "locate_header ws =
     (let (headers, header_row_num) =
            (case find_header 1 (take 50 ws) of Some hn \<Rightarrow> hn | None \<Rightarrow> ([], 0))
      in if headers = []
         then (case find_fallback 1 (take 20 ws) of
                 Some hn \<Rightarrow> hn | None \<Rightarrow> (headers, header_row_num))
         else (headers, header_row_num))"

definition keep_row :: "cell list \<Rightarrow> bool" where
  "keep_row row =
     (any_row row \<and>
      (case row of [] \<Rightarrow> False
       | c # _ \<Rightarrow>
           (let first_cell = (if truthy c then py_str c else [])
            in \<not> startswith first_cell ''SECTION'' \<and> CHR ''*'' \<notin> set first_cell)))"

definition data_rows :: "nat \<Rightarrow> cell list list \<Rightarrow> cell list list" where
  "data_rows header_row_num ws = filter keep_row (drop header_row_num ws)"

definition clean_name :: "string \<Rightarrow> string" where
  "clean_name name = strip (filter (\<lambda>c. c \<noteq> CHR ''*'') name)"

definition worksheet_to_dataframe :: "cell list list \<Rightarrow> exn + data_frame" where
  "worksheet_to_dataframe ws =
     (let (headers, header_row_num) = locate_header ws;
          data = data_rows header_row_num ws
      in then_do (DataFrame data (take (if data \<noteq> [] then length (hd data) else 0) headers))
           (\<lambda>df. Inr (df\<lparr>columns := map clean_name (columns df)\<rparr>)))"

section \<open>Validator state and check results\<close>

datatype check_status = PASS | WARNING | FAIL

record field_stat =
  filled :: nat
  total :: nat
  completeness :: rat

text \<open>
  One constructor per entry of \<^verbatim>\<open>validation_results\<close>, holding the entry's fields in the
  order of the source; the quality metrics carry no status. \<open>Completeness\<close> holds
  \<^verbatim>\<open>overall\<close>, \<^verbatim>\<open>field_stats\<close>, \<^verbatim>\<open>low_completeness_fields\<close> and the status, the target
  being the constant.
\<close>

datatype check_result =
  Schema_compliance "string list" "string list" "string list" check_status
| Data_types "string list" check_status
| Completeness rat "(string \<times> field_stat) list" "(string \<times> field_stat) list" check_status
| Dropdown_validation "(string \<times> string list) list" check_status
| Quality_metrics nat nat "nat option" nat nat
| Enhancement_targets nat nat nat nat check_status

fun result_status :: "check_result \<Rightarrow> check_status option" where
  "result_status (Schema_compliance _ _ _ st) = Some st"
| "result_status (Data_types _ st) = Some st"
| "result_status (Completeness _ _ _ st) = Some st"
| "result_status (Dropdown_validation _ st) = Some st"
| "result_status (Quality_metrics _ _ _ _ _) = None"
| "result_status (Enhancement_targets _ _ _ _ st) = Some st"

text \<open>The fields of a \<^verbatim>\<open>SubmissionValidator\<close>; \<^verbatim>\<open>metadata\<close> is never written and left out.\<close>

record validator =
  file_path :: string
  template_type :: string
  schema :: template_schema
  errors :: "string list"
  warnings :: "string list"
  validation_results :: "(string \<times> check_result) list"

definition add_error :: "string \<Rightarrow> validator \<Rightarrow> validator" where
  "add_error msg v = v\<lparr>errors := errors v @ [msg]\<rparr>"

definition add_warning :: "string \<Rightarrow> validator \<Rightarrow> validator" where
  "add_warning msg v = v\<lparr>warnings := warnings v @ [msg]\<rparr>"

text \<open>\<^verbatim>\<open>self.validation_results[key] = value\<close> on an insertion-ordered dictionary.\<close>

definition set_result :: "string \<Rightarrow> check_result \<Rightarrow> validator \<Rightarrow> validator" where
  "set_result key res v = v\<lparr>validation_results := AList.update key res (validation_results v)\<rparr>"

section \<open>The rule checks\<close>

definition check_schema_compliance :: "data_frame \<Rightarrow> validator \<Rightarrow> validator" where
  "check_schema_compliance df v =
     (let required = required_fields (schema v);
          missing_fields = filter (\<lambda>field. field \<notin> set (columns df)) required;
          v1 = (if missing_fields \<noteq> []
                then add_error (''Missing required columns: '' @ join '', '' missing_fields) v
                else v)
      in set_result ''schema_compliance''
           (Schema_compliance required missing_fields
              (filter (\<lambda>f. f \<in> set (columns df)) required)
              (if missing_fields = [] then PASS else FAIL)) v1)"

definition numeric_fields :: "string list" where
  "numeric_fields = [''Employees'', ''Founded_Year'', ''Annual_Revenue'',
                     ''EU_Projects_Count'', ''Total_EU_Funding'', ''Number_of_Participants'']"

text \<open>The cells selected by \<^verbatim>\<open>~pd.to_numeric(df[field], errors='coerce').notna() &
  df[field].notna()\<close>.\<close>

definition non_numeric :: "pylib \<Rightarrow> data_frame \<Rightarrow> string \<Rightarrow> cell list" where
  "non_numeric lib df field = filter (\<lambda>c. \<not> to_numeric lib c \<and> notna c) (column df field)"

definition type_errors :: "pylib \<Rightarrow> data_frame \<Rightarrow> string list" where
  "type_errors lib df =
     concat (map (\<lambda>field.
        if field \<in> set (columns df) \<and> length (non_numeric lib df field) > 0
        then [field @ '': '' @ str_nat (length (non_numeric lib df field)) @ '' non-numeric values'']
        else []) numeric_fields)"

definition invalid_urls :: "data_frame \<Rightarrow> string \<Rightarrow> cell list" where
  "invalid_urls df field = filter (\<lambda>c. notna c \<and> \<not> has_http_prefix (py_str c)) (column df field)"

definition invalid_emails :: "data_frame \<Rightarrow> string \<Rightarrow> cell list" where
  "invalid_emails df field = filter (\<lambda>c. notna c \<and> CHR ''@'' \<notin> set (py_str c)) (column df field)"

definition url_warnings :: "data_frame \<Rightarrow> string list" where
  "url_warnings df =
     concat (map (\<lambda>field.
        if field \<in> set (columns df) \<and> length (invalid_urls df field) > 0
        then [field @ '': '' @ str_nat (length (invalid_urls df field))
                @ '' entries missing http:// or https://'']
        else []) [''Website''])"

definition email_warnings :: "data_frame \<Rightarrow> string list" where
  "email_warnings df =
     concat (map (\<lambda>field.
        if field \<in> set (columns df) \<and> length (invalid_emails df field) > 0
        then [field @ '': '' @ str_nat (length (invalid_emails df field))
                @ '' entries missing '' @ [CHR 0x27] @ ''@'' @ [CHR 0x27] @ '' symbol'']
        else []) [''Email'', ''Contact_Email''])"

text \<open>The numeric messages go to the local list \<^verbatim>\<open>type_errors\<close> and from there into the
  check's own entry; only the URL and e-mail messages reach an accumulator of the validator.\<close>

definition check_data_types :: "pylib \<Rightarrow> data_frame \<Rightarrow> validator \<Rightarrow> validator" where
  "check_data_types lib df v =
     (let v1 = v\<lparr>warnings := warnings v @ url_warnings df @ email_warnings df\<rparr>
      in set_result ''data_types''
           (Data_types (type_errors lib df) (if type_errors lib df = [] then PASS else FAIL)) v1)"

definition present_required :: "template_schema \<Rightarrow> data_frame \<Rightarrow> string list" where
  "present_required sch df = filter (\<lambda>f. f \<in> set (columns df)) (required_fields sch)"

definition field_ratio :: "data_frame \<Rightarrow> string \<Rightarrow> rat" where
  "field_ratio df field =
     (if length (rows df) > 0
      then of_nat (length (filter notna (column df field))) / of_nat (length (rows df))
      else 0)"

text \<open>The dictionary \<^verbatim>\<open>field_completeness\<close>, filled field by field.\<close>

definition field_completeness :: "pylib \<Rightarrow> template_schema \<Rightarrow> data_frame \<Rightarrow> (string \<times> field_stat) list" where
  "field_completeness lib sch df =
     fold (\<lambda>field fc. AList.update field
              \<lparr>filled = length (filter notna (column df field)),
               total = length (rows df),
               completeness = round3 lib (field_ratio df field)\<rparr> fc)
       (present_required sch df) []"

definition overall_completeness :: "pylib \<Rightarrow> template_schema \<Rightarrow> data_frame \<Rightarrow> rat" where
  "overall_completeness lib sch df =
     (let total_filled = sum_list (map (\<lambda>(f, st). filled st) (field_completeness lib sch df));
          total_cells = sum_list (map (\<lambda>(f, st). total st) (field_completeness lib sch df))
      in if total_cells > 0 then of_nat total_filled / of_nat total_cells else 0)"

definition check_completeness :: "pylib \<Rightarrow> data_frame \<Rightarrow> validator \<Rightarrow> validator" where
  "check_completeness lib df v =
     (if present_required (schema v) df = []
      then add_error ''No required fields found in submission'' v
      else
        let fc = field_completeness lib (schema v) df;
            overall = overall_completeness lib (schema v) df;
            v1 = (if overall < COMPLETENESS_TARGET
                  then add_warning (''Completeness '' @ percent1 lib overall
                                      @ '' below target 95%'') v
                  else v);
            low_completeness = filter (\<lambda>(field, stats). completeness stats < 8 / 10) fc
        in set_result ''completeness''
             (Completeness (round3 lib overall) fc low_completeness
                (if overall \<ge> COMPLETENESS_TARGET then PASS else WARNING)) v1)"

text \<open>\<^verbatim>\<open>Series.unique()\<close>: the distinct values in the order of their first occurrence.\<close>

definition unique :: "'a list \<Rightarrow> 'a list" where
  "unique xs = rev (remdups (rev xs))"

text \<open>The members of \<^verbatim>\<open>actual_values - allowed_set\<close>, before the set is iterated.\<close>

definition invalid_of :: "data_frame \<Rightarrow> string \<Rightarrow> string list \<Rightarrow> string list" where
  "invalid_of df field allowed_values =
     filter (\<lambda>x. x \<notin> set allowed_values) (unique (map py_str (filter notna (column df field))))"

text \<open>One round of the loop over \<^verbatim>\<open>dropdowns.items()\<close>, on the pair of \<^verbatim>\<open>invalid_values\<close>
  and the validator.\<close>

definition dropdown_step ::
  "pylib \<Rightarrow> data_frame \<Rightarrow> string \<times> string list \<Rightarrow>
   (string \<times> string list) list \<times> validator \<Rightarrow> (string \<times> string list) list \<times> validator" where
  "dropdown_step lib df item acc =
     (let field = fst item; allowed_values = snd item;
          invalid_values = fst acc; v = snd acc
      in if field \<in> set (columns df) \<and> invalid_of df field allowed_values \<noteq> []
         then (let invalid = set_order lib (invalid_of df field allowed_values)
               in (AList.update field invalid invalid_values,
                   add_error (field @ '': Invalid values found: '' @ join '', '' invalid) v))
         else acc)"

definition check_dropdown_values :: "pylib \<Rightarrow> data_frame \<Rightarrow> validator \<Rightarrow> validator" where
  "check_dropdown_values lib df v =
     (let (invalid_values, v1) = fold (dropdown_step lib df) (dropdowns (schema v)) ([], v)
      in set_result ''dropdown_validation''
           (Dropdown_validation invalid_values (if invalid_values = [] then PASS else FAIL)) v1)"

text \<open>The first column named \<^verbatim>\<open>..._ID\<close>, if any, with the number of its non-null cells
  that repeat an earlier one (\<^verbatim>\<open>duplicated().sum()\<close>).\<close>

definition primary_duplicates :: "data_frame \<Rightarrow> (string \<times> nat) option" where
  "primary_duplicates df =
     (let id_fields = filter (\<lambda>col. endswith col ''_ID'') (columns df)
      in case id_fields of [] \<Rightarrow> None
         | primary_id # _ \<Rightarrow>
             (let ids = filter notna (column df primary_id)
              in Some (primary_id, length ids - length (remdups ids))))"

definition quality_warnings :: "data_frame \<Rightarrow> string list" where
  "quality_warnings df =
     (case primary_duplicates df of
        Some (primary_id, duplicates) \<Rightarrow>
          (if duplicates > 0
           then [''Found '' @ str_nat duplicates @ '' duplicate '' @ primary_id @ '' values'']
           else [])
      | None \<Rightarrow> [])"

definition quality_metrics :: "data_frame \<Rightarrow> check_result" where
  "quality_metrics df =
     (let total_rows = length (rows df);
          non_empty_rows = length (filter (list_ex notna) (rows df));
          fields_used = length (filter (\<lambda>col. list_ex notna (column df col)) (columns df));
          fields_total = length (columns df)
      in Quality_metrics total_rows non_empty_rows (map_option snd (primary_duplicates df))
           fields_used fields_total)"

definition check_quality_metrics :: "data_frame \<Rightarrow> validator \<Rightarrow> validator" where
  "check_quality_metrics df v =
     set_result ''quality_metrics'' (quality_metrics df)
       (v\<lparr>warnings := warnings v @ quality_warnings df\<rparr>)"

text \<open>\<^verbatim>\<open>targets.get(key, default)\<close> and \<^verbatim>\<open>targets[key]\<close> on the schema's targets, which are
  all there or all missing.\<close>

definition target_get :: "targets option \<Rightarrow> (targets \<Rightarrow> nat) \<Rightarrow> nat \<Rightarrow> nat" where
  "target_get ts sel d = (case ts of Some t \<Rightarrow> sel t | None \<Rightarrow> d)"

definition target_item :: "targets option \<Rightarrow> (targets \<Rightarrow> nat) \<Rightarrow> string \<Rightarrow> exn + nat" where
  "target_item ts sel key = (case ts of Some t \<Rightarrow> Inr (sel t) | None \<Rightarrow> Inl (KeyError key))"

text \<open>The rows with and without a value in the marker column; without the column all rows
  are new and \<^verbatim>\<open>enhanced_orgs\<close> is the empty frame.\<close>

definition enhanced_orgs :: "data_frame \<Rightarrow> cell list list" where
  "enhanced_orgs df =
     (if ''CORDIS_Organization_ID'' \<in> set (columns df)
      then map snd (filter (\<lambda>(m, r). notna m)
                      (zip (column df ''CORDIS_Organization_ID'') (rows df)))
      else [])"

definition new_orgs :: "data_frame \<Rightarrow> cell list list" where
  "new_orgs df =
     (if ''CORDIS_Organization_ID'' \<in> set (columns df)
      then map snd (filter (\<lambda>(m, r). \<not> notna m)
                      (zip (column df ''CORDIS_Organization_ID'') (rows df)))
      else rows df)"

text \<open>The three warnings of the enhancement check. Each message reads its target with
  \<^verbatim>\<open>targets[key]\<close>, which raises when the schema has no targets.\<close>

definition warn_enhanced :: "targets option \<Rightarrow> nat \<Rightarrow> validator \<Rightarrow> exn + validator" where
  "warn_enhanced ts enhanced_count v =
     (if enhanced_count < target_get ts min_enhanced_orgs 30
      then then_do (target_item ts min_enhanced_orgs ''min_enhanced_orgs'')
             (\<lambda>m. Inr (add_warning (''Enhanced organizations ('' @ str_nat enhanced_count
                           @ '') below minimum ('' @ str_nat m @ '')'') v))
      else Inr v)"

definition warn_new :: "targets option \<Rightarrow> nat \<Rightarrow> validator \<Rightarrow> exn + validator" where
  "warn_new ts new_count v =
     (if new_count < target_get ts min_new_orgs 10
      then then_do (target_item ts min_new_orgs ''min_new_orgs'')
             (\<lambda>m. Inr (add_warning (''New organizations ('' @ str_nat new_count
                           @ '') below minimum ('' @ str_nat m @ '')'') v))
      else Inr v)"

definition warn_depth :: "pylib \<Rightarrow> targets option \<Rightarrow> data_frame \<Rightarrow> validator \<Rightarrow> exn + validator" where
  "warn_depth lib ts df v =
     (let enhanced = \<lparr>columns = columns df, rows = enhanced_orgs df\<rparr>;
          enhancement_fields = filter (\<lambda>f. f \<in> set (columns df)) (optional_fields (schema v))
      in if enhanced_orgs df \<noteq> [] \<and> enhancement_fields \<noteq> []
         then (let fields_per_org =
                     map (\<lambda>i. length (filter (\<lambda>f. notna (column enhanced f ! i))
                                          enhancement_fields))
                       [0..<length (enhanced_orgs df)];
                   avg_fields = of_nat (sum_list fields_per_org) / of_nat (length fields_per_org)
               in if avg_fields < of_nat (target_get ts min_fields_per_org 3)
                  then then_do (target_item ts min_fields_per_org ''min_fields_per_org'')
                         (\<lambda>m. Inr (add_warning (''Average enhancement depth (''
                                       @ fixed1 lib avg_fields @ '' fields) below minimum (''
                                       @ str_nat m @ '' fields)'') v))
                  else Inr v)
         else Inr v)"

definition check_enhancement_targets :: "pylib \<Rightarrow> data_frame \<Rightarrow> validator \<Rightarrow> exn + validator" where
  "check_enhancement_targets lib df v =
     (let ts = enhancement_targets (schema v);
          enhanced_count = length (enhanced_orgs df);
          new_count = length (new_orgs df)
      in then_do (warn_enhanced ts enhanced_count v) (\<lambda>v1.
         then_do (warn_new ts new_count v1) (\<lambda>v2.
         then_do (warn_depth lib ts df v2) (\<lambda>v3.
           Inr (set_result ''enhancement_targets''
                  (Enhancement_targets enhanced_count new_count
                     (target_get ts min_enhanced_orgs 30) (target_get ts min_new_orgs 10)
                     (if enhanced_count \<ge> target_get ts min_enhanced_orgs 30 \<and>
                         new_count \<ge> target_get ts min_new_orgs 10
                      then PASS else WARNING)) v3)))))"

section \<open>Reports\<close>

datatype overall_status = REJECTED | VALIDATED_WITH_WARNINGS | VALIDATED | ERROR

text \<open>The report dictionary, its \<^verbatim>\<open>metadata\<close> and \<^verbatim>\<open>summary\<close> flattened; the time stamp and
  the constant version are left out.\<close>

record report =
  meta_file_name :: string
  meta_template_type :: string
  status :: overall_status
  report_errors :: "string list"
  report_warnings :: "string list"
  report_results :: "(string \<times> check_result) list"
  total_errors :: nat
  total_warnings :: nat
  checks_passed :: nat
  checks_failed :: nat
  checks_warning :: nat

definition count_status :: "check_status \<Rightarrow> (string \<times> check_result) list \<Rightarrow> nat" where
  "count_status st results = length (filter (\<lambda>(k, v). result_status v = Some st) results)"

definition generate_report :: "validator \<Rightarrow> report" where
  "generate_report v =
     (let overall_status =
            (if errors v \<noteq> [] then REJECTED
             else if warnings v \<noteq> [] then VALIDATED_WITH_WARNINGS
             else VALIDATED)
      in \<lparr>meta_file_name = file_path v,
          meta_template_type = template_type v,
          status = overall_status,
          report_errors = errors v,
          report_warnings = warnings v,
          report_results = validation_results v,
          total_errors = length (errors v),
          total_warnings = length (warnings v),
          checks_passed = count_status PASS (validation_results v),
          checks_failed = count_status FAIL (validation_results v),
          checks_warning = count_status WARNING (validation_results v)\<rparr>)"

section \<open>Validation of one file and of a directory\<close>

text \<open>\<^verbatim>\<open>SubmissionValidator.__init__\<close>: the template is identified first, and an unknown one
  raises out of the constructor.\<close>

definition schema_for :: "string \<Rightarrow> template_schema" where
  "schema_for t = (case map_of TEMPLATE_SCHEMAS t of Some s \<Rightarrow> s | None \<Rightarrow> empty_schema)"

definition new_validator :: "input_file \<Rightarrow> exn + validator" where
  "new_validator f =
     then_do (identify_template (file_name f))
       (\<lambda>t. Inr \<lparr>file_path = file_name f,
                  template_type = t,
                  schema = schema_for t,
                  errors = [], warnings = [], validation_results = []\<rparr>)"

text \<open>The checks in the order \<^verbatim>\<open>validate\<close> calls them. None of the calls is guarded, so
  what a check raises leaves \<^verbatim>\<open>validate\<close>; a repeated column label makes one of them raise,
  whatever the cells.\<close>

definition run_checks :: "pylib \<Rightarrow> data_frame \<Rightarrow> validator \<Rightarrow> exn + validator" where
  "run_checks lib df v =
     (if \<not> distinct (columns df) then Inl LabelError
      else
        let v1 = check_schema_compliance df v;
            v2 = check_data_types lib df v1;
            v3 = check_completeness lib df v2;
            v4 = check_dropdown_values lib df v3;
            v5 = check_quality_metrics df v4
        in if template_type v5 = ''1_Organization_Registry'' \<and> two_tab (schema v5)
           then check_enhancement_targets lib df v5
           else Inr v5)"

definition validate :: "pylib \<Rightarrow> input_file \<Rightarrow> validator \<Rightarrow> exn + report" where
  "validate lib f v =
     (case content f of
        Load_failed msg \<Rightarrow> Inr (generate_report (add_error (''Failed to load file: '' @ msg) v))
      | Workbook sheets \<Rightarrow>
          (case map_of sheets (sheet_name (schema v)) of
             None \<Rightarrow>
               Inr (generate_report
                      (add_error (''Expected worksheet '' @ [CHR 0x27] @ sheet_name (schema v)
                                    @ [CHR 0x27] @ '' not found'') v))
           | Some ws \<Rightarrow>
               (case worksheet_to_dataframe ws of
                  Inl e \<Rightarrow>
                    Inr (generate_report
                           (add_error (''Failed to parse worksheet: '' @ exn_text e) v))
                | Inr df \<Rightarrow>
                    then_do (run_checks lib df v) (\<lambda>v'. Inr (generate_report v')))))"

text \<open>\<^verbatim>\<open>validate_file\<close> with no output path.\<close>

definition validate_file :: "pylib \<Rightarrow> input_file \<Rightarrow> exn + report" where
  "validate_file lib f = then_do (new_validator f) (\<lambda>validator. validate lib f validator)"

text \<open>An entry of the batch result: a report, or the stub that the handler of
  \<^verbatim>\<open>validate_batch\<close> builds from the file name and \<^verbatim>\<open>str(e)\<close>.\<close>

datatype batch_entry = Report report | Error_entry string "string list"

fun entry_status :: "batch_entry \<Rightarrow> overall_status" where
  "entry_status (Report r) = status r"
| "entry_status (Error_entry name errs) = ERROR"

definition batch_one :: "pylib \<Rightarrow> input_file \<Rightarrow> batch_entry" where
  "batch_one lib f =
     (case validate_file lib f of
        Inr r \<Rightarrow> Report r
      | Inl e \<Rightarrow> Error_entry (file_name f) [exn_text e])"

text \<open>The directory is the list of its files; \<^verbatim>\<open>glob("*.xlsx")\<close> keeps those named so.\<close>

definition excel_files :: "input_file list \<Rightarrow> input_file list" where
  "excel_files directory = filter (\<lambda>f. endswith (file_name f) ''.xlsx'') directory"

fun batch_loop :: "pylib \<Rightarrow> input_file list \<Rightarrow> batch_entry list \<Rightarrow> batch_entry list" where
  "batch_loop lib [] reports = reports"
| "batch_loop lib (f # fs) reports = batch_loop lib fs (reports @ [batch_one lib f])"

definition validate_batch :: "pylib \<Rightarrow> input_file list \<Rightarrow> batch_entry list" where
  "validate_batch lib directory = batch_loop lib (excel_files directory) []"

text \<open>One admissible reading of the library parameters, for the evaluated examples: a text
  is numeric when it is a non-empty run of digits, a set iterates in first-seen order, and
  the float renderings are kept abstract as fixed texts.\<close>

definition demo_lib :: pylib where
  "demo_lib = \<lparr>
     to_numeric = (\<lambda>c. case c of CNone \<Rightarrow> False | CInt n \<Rightarrow> True
                    | CStr s \<Rightarrow> s \<noteq> [] \<and> list_all (\<lambda>ch. ch \<in> set ''0123456789'') s),
     set_order = (\<lambda>xs. xs),
     round3 = (\<lambda>x. x),
     percent1 = (\<lambda>x. ''?%''),
     fixed1 = (\<lambda>x. ''?'')\<rparr>"

section \<open>Reading a report, and the inputs of the evaluated examples\<close>

text \<open>\<^verbatim>\<open>results[key]["status"]\<close>, when the entry is there and has a status.\<close>

definition check_status_of :: "string \<Rightarrow> (string \<times> check_result) list \<Rightarrow> check_status option" where
  "check_status_of key results = Option.bind (map_of results key) result_status"

text \<open>The validator as \<^verbatim>\<open>__init__\<close> leaves it, for a given template.\<close>

definition fresh_validator :: "string \<Rightarrow> string \<Rightarrow> template_schema \<Rightarrow> validator" where
  "fresh_validator name t sch =
     \<lparr>file_path = name, template_type = t, schema = sch,
      errors = [], warnings = [], validation_results = []\<rparr>"

text \<open>A stakeholder mapping without the column \<^verbatim>\<open>Influence\<close>: the sheet, the file and
  the table extracted from it.\<close>

definition stakeholder_sheet :: "cell list list" where
  "stakeholder_sheet =
     [[CStr ''Stakeholder_ID'', CStr ''Name'', CStr ''Organization'', CStr ''Role'',
       CStr ''Interest''],
      [CStr ''S1'', CStr ''Ann'', CStr ''Org'', CStr ''Researcher'', CStr ''High'']]"

definition stakeholder_file :: input_file where
  "stakeholder_file =
     \<lparr>file_name = ''2_Stakeholder_Mapping_PT16.xlsx'',
      content = Workbook [(''Stakeholder Mapping'', stakeholder_sheet)]\<rparr>"

definition stakeholder_table :: data_frame where
  "stakeholder_table =
     \<lparr>columns = [''Stakeholder_ID'', ''Name'', ''Organization'', ''Role'', ''Interest''],
      rows = [[CStr ''S1'', CStr ''Ann'', CStr ''Org'', CStr ''Researcher'', CStr ''High'']]\<rparr>"

text \<open>\<^verbatim>\<open>results["dropdown_validation"]["invalid_values"]\<close>.\<close>

definition dropdown_invalid :: "(string \<times> check_result) list \<Rightarrow> (string \<times> string list) list" where
  "dropdown_invalid results =
     (case map_of results ''dropdown_validation'' of
        Some (Dropdown_validation invalid_values st) \<Rightarrow> invalid_values
      | _ \<Rightarrow> [])"

text \<open>A stakeholder table whose \<^verbatim>\<open>Influence\<close> column holds an empty text and a null.\<close>

definition blank_influence_table :: data_frame where
  "blank_influence_table =
     \<lparr>columns = [''Stakeholder_ID'', ''Influence''],
      rows = [[CStr ''S1'', CStr ''''], [CStr ''S2'', CNone]]\<rparr>"

text \<open>A focus-group file with a text where the number of participants belongs.\<close>

definition focus_file :: input_file where
  "focus_file =
     \<lparr>file_name = ''5_Focus_Group_Notes_PT16.xlsx'',
      content = Workbook [(''Focus Group Notes'',
        [[CStr ''Session_Date'', CStr ''Location'', CStr ''Facilitator'',
          CStr ''Number_of_Participants''],
         [CStr ''2024-01-01'', CStr ''Lisbon'', CStr ''Ann'', CStr ''abc'']])]\<rparr>"

text \<open>A focus-group file whose header names none of the required fields.\<close>

definition unheaded_file :: input_file where
  "unheaded_file =
     \<lparr>file_name = ''5_Focus_Group_Notes_EL54.xlsx'',
      content = Workbook [(''Focus Group Notes'',
        [[CStr ''Topic'', CStr ''Remarks''],
         [CStr ''Funding'', CStr ''none'']])]\<rparr>"

text \<open>The file of the repository's own error-handling test, which does not exist.\<close>

definition nonexistent_file :: input_file where
  "nonexistent_file =
     \<lparr>file_name = ''nonexistent_file.xlsx'', content = Load_failed ''No such file''\<rparr>"

text \<open>The table extracted from it.\<close>

definition unheaded_table :: data_frame where
  "unheaded_table =
     \<lparr>columns = [''Topic'', ''Remarks''], rows = [[CStr ''Funding'', CStr ''none'']]\<rparr>"

text \<open>A well-formed focus-group workbook under a given file name, a workbook that does not
  load under a given name, and a directory of three good files and a corrupt one whose name
  starts like a template.\<close>

definition focus_named :: "string \<Rightarrow> input_file" where
  "focus_named name =
     \<lparr>file_name = name,
      content = Workbook [(''Focus Group Notes'',
        [[CStr ''Session_Date'', CStr ''Location'', CStr ''Facilitator'',
          CStr ''Number_of_Participants''],
         [CStr ''2024-01-01'', CStr ''Lisbon'', CStr ''Ann'', CInt 12]])]\<rparr>"

definition corrupt_named :: "string \<Rightarrow> input_file" where
  "corrupt_named name = \<lparr>file_name = name, content = Load_failed ''File is not a zip file''\<rparr>"

definition batch_directory :: "input_file list" where
  "batch_directory =
     [focus_named ''5_Focus_PT16.xlsx'', focus_named ''5_Focus_EL54.xlsx'',
      focus_named ''5_Focus_LT01.xlsx'', corrupt_named ''5_Focus_BG41.xlsx'']"

text \<open>A sheet that holds the full header of a stakeholder mapping and no data row.\<close>

definition header_only_sheet :: "cell list list" where
  "header_only_sheet =
     [[CStr ''Stakeholder_ID'', CStr ''Name'', CStr ''Organization'', CStr ''Role'',
       CStr ''Influence'', CStr ''Interest'']]"

text \<open>Every cell of every required field that is among the columns is non-null.\<close>

definition all_required_filled :: "template_schema \<Rightarrow> data_frame \<Rightarrow> bool" where
  "all_required_filled sch df =
     list_all (\<lambda>f. list_all notna (column df f)) (present_required sch df)"

section \<open>What each check leaves alone and what it adds\<close>

lemma then_do_Inr [simp]: "then_do (Inr x) f = f x"
  by (simp add: then_do_def)

lemma then_do_Inl [simp]: "then_do (Inl e) f = Inl e"
  by (simp add: then_do_def)

lemma then_do_eq_Inr: "then_do r f = Inr y \<longleftrightarrow> (\<exists>x. r = Inr x \<and> f x = Inr y)"
  by (cases r) simp_all

lemma add_error_fields [simp]:
  "errors (add_error m v) = errors v @ [m]"
  "warnings (add_error m v) = warnings v"
  "validation_results (add_error m v) = validation_results v"
  "schema (add_error m v) = schema v"
  "template_type (add_error m v) = template_type v"
  by (simp_all add: add_error_def)

lemma add_warning_fields [simp]:
  "errors (add_warning m v) = errors v"
  "warnings (add_warning m v) = warnings v @ [m]"
  "validation_results (add_warning m v) = validation_results v"
  "schema (add_warning m v) = schema v"
  "template_type (add_warning m v) = template_type v"
  by (simp_all add: add_warning_def)

lemma set_result_fields [simp]:
  "errors (set_result k res v) = errors v"
  "warnings (set_result k res v) = warnings v"
  "validation_results (set_result k res v) = AList.update k res (validation_results v)"
  "schema (set_result k res v) = schema v"
  "template_type (set_result k res v) = template_type v"
  by (simp_all add: set_result_def)

subsection \<open>Schema compliance\<close>

lemma schema_compliance_frame [simp]:
  "warnings (check_schema_compliance df v) = warnings v"
  "schema (check_schema_compliance df v) = schema v"
  "template_type (check_schema_compliance df v) = template_type v"
  by (simp_all add: check_schema_compliance_def Let_def)

lemma schema_compliance_errors:
  "errors (check_schema_compliance df v) =
     errors v @
     (if filter (\<lambda>field. field \<notin> set (columns df)) (required_fields (schema v)) \<noteq> []
      then [''Missing required columns: '' @ join '', ''
              (filter (\<lambda>field. field \<notin> set (columns df)) (required_fields (schema v)))]
      else [])"
  by (simp add: check_schema_compliance_def Let_def)

lemma schema_compliance_results:
  "validation_results (check_schema_compliance df v) =
     AList.update ''schema_compliance''
       (Schema_compliance (required_fields (schema v))
          (filter (\<lambda>field. field \<notin> set (columns df)) (required_fields (schema v)))
          (filter (\<lambda>f. f \<in> set (columns df)) (required_fields (schema v)))
          (if filter (\<lambda>field. field \<notin> set (columns df)) (required_fields (schema v)) = []
           then PASS else FAIL))
       (validation_results v)"
  by (simp add: check_schema_compliance_def Let_def)

subsection \<open>Data types\<close>

lemma data_types_frame [simp]:
  "errors (check_data_types lib df v) = errors v"
  "schema (check_data_types lib df v) = schema v"
  "template_type (check_data_types lib df v) = template_type v"
  by (simp_all add: check_data_types_def Let_def)

lemma data_types_results:
  "validation_results (check_data_types lib df v) =
     AList.update ''data_types''
       (Data_types (type_errors lib df) (if type_errors lib df = [] then PASS else FAIL))
       (validation_results v)"
  by (simp add: check_data_types_def Let_def)

subsection \<open>Completeness\<close>

lemma completeness_frame [simp]:
  "schema (check_completeness lib df v) = schema v"
  "template_type (check_completeness lib df v) = template_type v"
  by (simp_all add: check_completeness_def Let_def)

lemma completeness_errors:
  "errors (check_completeness lib df v) =
     errors v @ (if present_required (schema v) df = []
                 then [''No required fields found in submission''] else [])"
  by (simp add: check_completeness_def Let_def)

lemma completeness_results_none:
  "present_required (schema v) df = [] \<Longrightarrow>
   validation_results (check_completeness lib df v) = validation_results v"
  by (simp add: check_completeness_def)

subsection \<open>Dropdown values\<close>

lemma dropdown_step_frame:
  "schema (snd (dropdown_step lib df item acc)) = schema (snd acc)"
  "template_type (snd (dropdown_step lib df item acc)) = template_type (snd acc)"
  "warnings (snd (dropdown_step lib df item acc)) = warnings (snd acc)"
  "validation_results (snd (dropdown_step lib df item acc)) = validation_results (snd acc)"
  by (simp_all add: dropdown_step_def Let_def)

lemma dropdown_fold_frame:
  "schema (snd (fold (dropdown_step lib df) items acc)) = schema (snd acc) \<and>
   template_type (snd (fold (dropdown_step lib df) items acc)) = template_type (snd acc) \<and>
   warnings (snd (fold (dropdown_step lib df) items acc)) = warnings (snd acc) \<and>
   validation_results (snd (fold (dropdown_step lib df) items acc)) = validation_results (snd acc)"
  by (induction items arbitrary: acc) (simp_all add: dropdown_step_frame)

lemma dropdown_fold_errors:
  "\<exists>es. errors (snd (fold (dropdown_step lib df) items acc)) = errors (snd acc) @ es"
proof (induction items arbitrary: acc)
  case Nil
  then show ?case by simp
next
  case (Cons item items)
  obtain es where "errors (snd (fold (dropdown_step lib df) items (dropdown_step lib df item acc)))
      = errors (snd (dropdown_step lib df item acc)) @ es"
    using Cons.IH by blast
  moreover have "\<exists>es'. errors (snd (dropdown_step lib df item acc)) = errors (snd acc) @ es'"
    by (simp add: dropdown_step_def Let_def)
  ultimately show ?case by auto
qed

lemma dropdown_frame [simp]:
  "schema (check_dropdown_values lib df v) = schema v"
  "template_type (check_dropdown_values lib df v) = template_type v"
  "warnings (check_dropdown_values lib df v) = warnings v"
  using dropdown_fold_frame [of lib df "dropdowns (schema v)" "([], v)"]
  by (simp_all add: check_dropdown_values_def split_beta)

lemma dropdown_errors: "\<exists>es. errors (check_dropdown_values lib df v) = errors v @ es"
  using dropdown_fold_errors [of lib df "dropdowns (schema v)" "([], v)"]
  by (simp add: check_dropdown_values_def split_beta)

lemma dropdown_results:
  "validation_results (check_dropdown_values lib df v) =
     AList.update ''dropdown_validation''
       (Dropdown_validation (fst (fold (dropdown_step lib df) (dropdowns (schema v)) ([], v)))
          (if fst (fold (dropdown_step lib df) (dropdowns (schema v)) ([], v)) = []
           then PASS else FAIL))
       (validation_results v)"
  using dropdown_fold_frame [of lib df "dropdowns (schema v)" "([], v)"]
  by (simp add: check_dropdown_values_def split_beta)

subsection \<open>Quality metrics\<close>

lemma quality_frame [simp]:
  "errors (check_quality_metrics df v) = errors v"
  "schema (check_quality_metrics df v) = schema v"
  "template_type (check_quality_metrics df v) = template_type v"
  by (simp_all add: check_quality_metrics_def)

lemma quality_results:
  "validation_results (check_quality_metrics df v) =
     AList.update ''quality_metrics'' (quality_metrics df) (validation_results v)"
  by (simp add: check_quality_metrics_def)

lemma quality_metrics_status [simp]: "result_status (quality_metrics df) = None"
  by (simp add: quality_metrics_def)

subsection \<open>Enhancement targets\<close>

lemma warn_enhanced_frame:
  "warn_enhanced ts n v = Inr v' \<Longrightarrow>
     errors v' = errors v \<and> schema v' = schema v \<and> template_type v' = template_type v \<and>
     validation_results v' = validation_results v"
  by (auto simp: warn_enhanced_def then_do_eq_Inr split: if_splits)

lemma warn_new_frame:
  "warn_new ts n v = Inr v' \<Longrightarrow>
     errors v' = errors v \<and> schema v' = schema v \<and> template_type v' = template_type v \<and>
     validation_results v' = validation_results v"
  by (auto simp: warn_new_def then_do_eq_Inr split: if_splits)

lemma warn_depth_frame:
  "warn_depth lib ts df v = Inr v' \<Longrightarrow>
     errors v' = errors v \<and> schema v' = schema v \<and> template_type v' = template_type v \<and>
     validation_results v' = validation_results v"
  by (auto simp: warn_depth_def Let_def then_do_eq_Inr split: if_splits)

lemma enhancement_frame:
  assumes "check_enhancement_targets lib df v = Inr v'"
  shows "errors v' = errors v \<and> schema v' = schema v \<and> template_type v' = template_type v \<and>
     (\<exists>res. validation_results v' = AList.update ''enhancement_targets'' res (validation_results v))"
proof -
  from assms obtain v1 v2 v3 res where
    s1: "warn_enhanced (enhancement_targets (schema v)) (length (enhanced_orgs df)) v = Inr v1" and
    s2: "warn_new (enhancement_targets (schema v)) (length (new_orgs df)) v1 = Inr v2" and
    s3: "warn_depth lib (enhancement_targets (schema v)) df v2 = Inr v3" and
    s4: "v' = set_result ''enhancement_targets'' res v3"
    by (auto simp: check_enhancement_targets_def Let_def then_do_eq_Inr)
  from warn_enhanced_frame [OF s1] warn_new_frame [OF s2] warn_depth_frame [OF s3] s4
  show ?thesis by auto
qed

lemma warn_total:
  "\<exists>v'. warn_enhanced (Some t) n v = Inr v'"
  "\<exists>v'. warn_new (Some t) n v = Inr v'"
  "\<exists>v'. warn_depth lib (Some t) df v = Inr v'"
  by (simp_all add: warn_enhanced_def warn_new_def warn_depth_def target_item_def Let_def)

lemma enhancement_total:
  assumes "enhancement_targets (schema v) = Some t"
  shows "\<exists>v'. check_enhancement_targets lib df v = Inr v'"
proof -
  obtain v1 where s1: "warn_enhanced (Some t) (length (enhanced_orgs df)) v = Inr v1"
    using warn_total(1) by blast
  obtain v2 where s2: "warn_new (Some t) (length (new_orgs df)) v1 = Inr v2"
    using warn_total(2) by blast
  obtain v3 where s3: "warn_depth lib (Some t) df v2 = Inr v3"
    using warn_total(3) by blast
  show ?thesis
    by (simp add: check_enhancement_targets_def Let_def assms s1 s2 s3)
qed

section \<open>The pipeline\<close>

lemma generate_report_status:
  "status (generate_report v) =
     (if errors v \<noteq> [] then REJECTED
      else if warnings v \<noteq> [] then VALIDATED_WITH_WARNINGS else VALIDATED)"
  by (simp add: generate_report_def)

lemma generate_report_fields [simp]:
  "report_errors (generate_report v) = errors v"
  "report_warnings (generate_report v) = warnings v"
  "report_results (generate_report v) = validation_results v"
  by (simp_all add: generate_report_def)

lemma validate_is_report: "validate lib f v = Inr r \<Longrightarrow> \<exists>v'. r = generate_report v'"
  by (auto simp: validate_def then_do_eq_Inr split: loaded.splits option.splits sum.splits)

lemma validate_file_is_report: "validate_file lib f = Inr r \<Longrightarrow> \<exists>v'. r = generate_report v'"
  by (auto simp: validate_file_def then_do_eq_Inr dest: validate_is_report)

lemma check_status_of_update [simp]:
  "check_status_of k (AList.update k res al) = result_status res"
  by (simp add: check_status_of_def update_conv')

lemma check_status_of_update_other [simp]:
  "k \<noteq> k' \<Longrightarrow> check_status_of k (AList.update k' res al) = check_status_of k al"
  by (simp add: check_status_of_def update_conv')

text \<open>The validator after the four checks that can add errors.\<close>

lemma run_checks_Inr:
  assumes "run_checks lib df v = Inr v'"
  shows "distinct (columns df)"
    and "errors v' = errors (check_dropdown_values lib df (check_completeness lib df
                       (check_data_types lib df (check_schema_compliance df v))))"
proof -
  show d: "distinct (columns df)"
    using assms by (auto simp: run_checks_def split: if_splits)
  let ?v5 = "check_quality_metrics df (check_dropdown_values lib df (check_completeness lib df
                       (check_data_types lib df (check_schema_compliance df v))))"
  from assms d have "check_enhancement_targets lib df ?v5 = Inr v' \<or> v' = ?v5"
    by (auto simp: run_checks_def Let_def split: if_splits)
  then show "errors v' = errors (check_dropdown_values lib df (check_completeness lib df
                       (check_data_types lib df (check_schema_compliance df v))))"
    by (auto dest: enhancement_frame)
qed

lemma run_checks_errors_grow:
  assumes "run_checks lib df v = Inr v'"
  shows "\<exists>es. errors v' = errors (check_schema_compliance df v) @ es"
proof -
  obtain es where "errors v' = errors (check_completeness lib df
                       (check_data_types lib df (check_schema_compliance df v))) @ es"
    using run_checks_Inr(2) [OF assms] dropdown_errors by metis
  then show ?thesis by (simp add: completeness_errors)
qed

section \<open>Overall status and schema compliance\<close>

text \<open>
  C3. The overall status follows the strict priority: a non-empty error list gives
  \<open>REJECTED\<close>; otherwise a non-empty warning list gives \<open>VALIDATED_WITH_WARNINGS\<close>;
  otherwise \<open>VALIDATED\<close>. This holds of the report built from any validator, and so of
  every report that the single-file entry point returns, read off the report's own lists.
\<close>

theorem overall_status_priority:
  "status (generate_report v) =
     (if errors v \<noteq> [] then REJECTED
      else if warnings v \<noteq> [] then VALIDATED_WITH_WARNINGS else VALIDATED) \<and>
   (validate_file lib f = Inr r \<longrightarrow>
      status r = (if report_errors r \<noteq> [] then REJECTED
                  else if report_warnings r \<noteq> [] then VALIDATED_WITH_WARNINGS
                  else VALIDATED))"
proof (intro conjI impI)
  show "status (generate_report v) =
     (if errors v \<noteq> [] then REJECTED
      else if warnings v \<noteq> [] then VALIDATED_WITH_WARNINGS else VALIDATED)"
    by (rule generate_report_status)
next
  assume "validate_file lib f = Inr r"
  then obtain v' where "r = generate_report v'"
    using validate_file_is_report by blast
  then show "status r = (if report_errors r \<noteq> [] then REJECTED
                  else if report_warnings r \<noteq> [] then VALIDATED_WITH_WARNINGS
                  else VALIDATED)"
    by (simp add: generate_report_status)
qed

theorem overall_status_priority_witness:
  "validate_file demo_lib stakeholder_file = Inr (projr (validate_file demo_lib stakeholder_file)) \<and>
   report_errors (projr (validate_file demo_lib stakeholder_file)) \<noteq> [] \<and>
   status (projr (validate_file demo_lib stakeholder_file)) = REJECTED"
proof -
  have h: "validate_file demo_lib stakeholder_file
             = Inr (projr (validate_file demo_lib stakeholder_file))"
    by code_simp
  have e: "report_errors (projr (validate_file demo_lib stakeholder_file)) \<noteq> []"
    by code_simp
  from overall_status_priority [of _ demo_lib stakeholder_file
         "projr (validate_file demo_lib stakeholder_file)"] h e
  show ?thesis by simp
qed

text \<open>
  C5. For every schema and table, the schema-compliance status is \<open>FAIL\<close> exactly when
  some required field is missing from the columns, and \<open>PASS\<close> otherwise (so always
  \<open>PASS\<close> with no required fields). When it fails, exactly one error is added, listing the
  missing fields comma-joined in the schema's order, and every report built after the
  remaining checks is \<open>REJECTED\<close>. The witness is the stakeholder mapping without
  \<^verbatim>\<open>Influence\<close>.
\<close>

theorem schema_compliance_fail_iff_missing:
  "(check_status_of ''schema_compliance'' (validation_results (check_schema_compliance df v))
      = Some FAIL
    \<longleftrightarrow> (\<exists>field \<in> set (required_fields (schema v)). field \<notin> set (columns df))) \<and>
   (check_status_of ''schema_compliance'' (validation_results (check_schema_compliance df v))
      = Some PASS
    \<longleftrightarrow> \<not> (\<exists>field \<in> set (required_fields (schema v)). field \<notin> set (columns df))) \<and>
   errors (check_schema_compliance df v) =
     errors v @
     (if \<exists>field \<in> set (required_fields (schema v)). field \<notin> set (columns df)
      then [''Missing required columns: '' @ join '', ''
              (filter (\<lambda>field. field \<notin> set (columns df)) (required_fields (schema v)))]
      else []) \<and>
   ((\<exists>field \<in> set (required_fields (schema v)). field \<notin> set (columns df)) \<longrightarrow>
      (\<forall>v'. run_checks lib df v = Inr v' \<longrightarrow> status (generate_report v') = REJECTED)) \<and>
   (required_fields (schema v) = [] \<longrightarrow>
      check_status_of ''schema_compliance'' (validation_results (check_schema_compliance df v))
        = Some PASS)"
proof -
  let ?missing = "filter (\<lambda>field. field \<notin> set (columns df)) (required_fields (schema v))"
  have m: "?missing \<noteq> [] \<longleftrightarrow> (\<exists>field \<in> set (required_fields (schema v)). field \<notin> set (columns df))"
    by (simp add: filter_empty_conv)
  have st: "check_status_of ''schema_compliance''
              (validation_results (check_schema_compliance df v))
            = Some (if ?missing = [] then PASS else FAIL)"
    by (simp add: schema_compliance_results)
  have er: "errors (check_schema_compliance df v) =
     errors v @ (if ?missing \<noteq> [] then [''Missing required columns: '' @ join '', '' ?missing]
                 else [])"
    by (rule schema_compliance_errors)
  have rej: "status (generate_report v') = REJECTED"
    if "?missing \<noteq> []" and "run_checks lib df v = Inr v'" for v'
  proof -
    from run_checks_errors_grow [OF that(2)] er that(1) have "errors v' \<noteq> []" by auto
    then show ?thesis by (simp add: generate_report_status)
  qed
  from m st er rej show ?thesis
    by (auto simp del: filter_False filter_True split: if_splits)
qed

theorem schema_compliance_fail_iff_missing_witness:
  "(\<exists>field \<in> set (required_fields schema_2_Stakeholder_Mapping).
       field \<notin> set (columns stakeholder_table)) \<and>
   check_status_of ''schema_compliance''
     (validation_results (check_schema_compliance stakeholder_table
        (fresh_validator ''2_Stakeholder_Mapping_PT16.xlsx'' ''2_Stakeholder_Mapping''
           schema_2_Stakeholder_Mapping))) = Some FAIL \<and>
   errors (check_schema_compliance stakeholder_table
        (fresh_validator ''2_Stakeholder_Mapping_PT16.xlsx'' ''2_Stakeholder_Mapping''
           schema_2_Stakeholder_Mapping)) = [''Missing required columns: Influence''] \<and>
   run_checks demo_lib stakeholder_table
        (fresh_validator ''2_Stakeholder_Mapping_PT16.xlsx'' ''2_Stakeholder_Mapping''
           schema_2_Stakeholder_Mapping)
     = Inr (projr (run_checks demo_lib stakeholder_table
        (fresh_validator ''2_Stakeholder_Mapping_PT16.xlsx'' ''2_Stakeholder_Mapping''
           schema_2_Stakeholder_Mapping))) \<and>
   status (generate_report (projr (run_checks demo_lib stakeholder_table
        (fresh_validator ''2_Stakeholder_Mapping_PT16.xlsx'' ''2_Stakeholder_Mapping''
           schema_2_Stakeholder_Mapping)))) = REJECTED"
proof -
  let ?v = "fresh_validator ''2_Stakeholder_Mapping_PT16.xlsx'' ''2_Stakeholder_Mapping''
              schema_2_Stakeholder_Mapping"
  have s: "schema ?v = schema_2_Stakeholder_Mapping" "errors ?v = []"
    by (simp_all add: fresh_validator_def)
  have h: "\<exists>field \<in> set (required_fields schema_2_Stakeholder_Mapping).
       field \<notin> set (columns stakeholder_table)"
    by code_simp
  have j: "''Missing required columns: '' @ join '', ''
              (filter (\<lambda>field. field \<notin> set (columns stakeholder_table))
                 (required_fields schema_2_Stakeholder_Mapping))
           = ''Missing required columns: Influence''"
    by code_simp
  have r: "run_checks demo_lib stakeholder_table ?v
             = Inr (projr (run_checks demo_lib stakeholder_table ?v))"
    by code_simp
  from schema_compliance_fail_iff_missing [of stakeholder_table ?v demo_lib] h j r s
  show ?thesis by simp
qed

text \<open>The entries of the results after all checks: the entries of the last three checks are
  those the checks wrote, every other entry is as the completeness check left it.\<close>

lemma run_checks_results:
  assumes "run_checks lib df v = Inr v'"
  shows "map_of (validation_results v') ''dropdown_validation'' =
           map_of (validation_results (check_dropdown_values lib df (check_completeness lib df
                       (check_data_types lib df (check_schema_compliance df v)))))
             ''dropdown_validation''"
    and "map_of (validation_results v') ''quality_metrics'' = Some (quality_metrics df)"
    and "k \<notin> {''dropdown_validation'', ''quality_metrics'', ''enhancement_targets''} \<Longrightarrow>
         map_of (validation_results v') k =
           map_of (validation_results (check_completeness lib df
                       (check_data_types lib df (check_schema_compliance df v)))) k"
proof -
  let ?v4 = "check_dropdown_values lib df (check_completeness lib df
                       (check_data_types lib df (check_schema_compliance df v)))"
  let ?v5 = "check_quality_metrics df ?v4"
  from assms have "check_enhancement_targets lib df ?v5 = Inr v' \<or> v' = ?v5"
    by (auto simp: run_checks_def Let_def split: if_splits)
  then have r: "(\<exists>res. validation_results v' =
                   AList.update ''enhancement_targets'' res (validation_results ?v5))
                \<or> validation_results v' = validation_results ?v5"
    by (auto dest: enhancement_frame)
  have q: "validation_results ?v5 =
             AList.update ''quality_metrics'' (quality_metrics df) (validation_results ?v4)"
    by (rule quality_results)
  from r q show "map_of (validation_results v') ''dropdown_validation'' =
           map_of (validation_results ?v4) ''dropdown_validation''"
    by (auto simp: update_conv')
  from r q show "map_of (validation_results v') ''quality_metrics'' = Some (quality_metrics df)"
    by (auto simp: update_conv')
  assume "k \<notin> {''dropdown_validation'', ''quality_metrics'', ''enhancement_targets''}"
  with r q show "map_of (validation_results v') k =
           map_of (validation_results (check_completeness lib df
                       (check_data_types lib df (check_schema_compliance df v)))) k"
    by (auto simp: update_conv' dropdown_results)
qed

section \<open>The loop over the dropdown fields\<close>

lemma dropdown_step_fst:
  "fst (dropdown_step lib df (field, allowed) acc) =
     (if field \<in> set (columns df) \<and> invalid_of df field allowed \<noteq> []
      then AList.update field (set_order lib (invalid_of df field allowed)) (fst acc)
      else fst acc)"
  by (simp add: dropdown_step_def Let_def)

lemma dropdown_fold_other:
  "field \<notin> fst ` set items \<Longrightarrow>
   map_of (fst (fold (dropdown_step lib df) items acc)) field = map_of (fst acc) field"
proof (induction items arbitrary: acc)
  case Nil
  then show ?case by simp
next
  case (Cons item items)
  obtain f a where item: "item = (f, a)" by (cases item)
  with Cons.prems have "f \<noteq> field" "field \<notin> fst ` set items" by auto
  then show ?case
    using Cons.IH [of "dropdown_step lib df item acc"]
    by (simp add: item dropdown_step_fst update_conv')
qed

lemma dropdown_fold_lookup:
  assumes "distinct (map fst items)" "(field, allowed) \<in> set items"
    "field \<in> set (columns df)" "invalid_of df field allowed \<noteq> []"
  shows "map_of (fst (fold (dropdown_step lib df) items acc)) field
           = Some (set_order lib (invalid_of df field allowed))"
  using assms(1,2)
proof (induction items arbitrary: acc)
  case Nil
  then show ?case by simp
next
  case (Cons item items)
  show ?case
  proof (cases "item = (field, allowed)")
    case True
    with Cons.prems have "field \<notin> fst ` set items" by auto
    then have "map_of (fst (fold (dropdown_step lib df) items (dropdown_step lib df item acc))) field
             = map_of (fst (dropdown_step lib df item acc)) field"
      by (rule dropdown_fold_other)
    with True assms(3,4) show ?thesis
      by (simp add: dropdown_step_fst update_conv')
  next
    case False
    with Cons.prems have "distinct (map fst items)" "(field, allowed) \<in> set items" by auto
    then show ?thesis using Cons.IH by simp
  qed
qed

lemma dropdown_fold_errors_mono:
  "set (errors (snd acc)) \<subseteq> set (errors (snd (fold (dropdown_step lib df) items acc)))"
  using dropdown_fold_errors [of lib df items acc] by auto

lemma dropdown_fold_message:
  assumes "(field, allowed) \<in> set items" "field \<in> set (columns df)"
    "invalid_of df field allowed \<noteq> []"
  shows "field @ '': Invalid values found: '' @ join '', '' (set_order lib (invalid_of df field allowed))
           \<in> set (errors (snd (fold (dropdown_step lib df) items acc)))"
  using assms(1)
proof (induction items arbitrary: acc)
  case Nil
  then show ?case by simp
next
  case (Cons item items)
  show ?case
  proof (cases "item = (field, allowed)")
    case True
    with assms(2,3) have "field @ '': Invalid values found: ''
              @ join '', '' (set_order lib (invalid_of df field allowed))
            \<in> set (errors (snd (dropdown_step lib df item acc)))"
      by (simp add: dropdown_step_def Let_def)
    then show ?thesis
      using dropdown_fold_errors_mono [of "dropdown_step lib df item acc" lib df items] by auto
  next
    case False
    with Cons.prems have "(field, allowed) \<in> set items" by auto
    then show ?thesis using Cons.IH by simp
  qed
qed

lemma set_unique [simp]: "set (unique xs) = set xs"
  by (simp add: unique_def)

lemma invalid_of_set:
  "set (invalid_of df field allowed) =
     {py_str c | c. c \<in> set (column df field) \<and> c \<noteq> CNone \<and> py_str c \<notin> set allowed}"
  by (auto simp: invalid_of_def notna_def)

lemma dropdown_invalid_update [simp]:
  "dropdown_invalid (AList.update ''dropdown_validation'' (Dropdown_validation iv st) al) = iv"
  by (simp add: dropdown_invalid_def update_conv')

lemma dropdown_check_fails:
  assumes "distinct (map fst (dropdowns (schema v)))"
    "(field, allowed) \<in> set (dropdowns (schema v))"
    "field \<in> set (columns df)" "invalid_of df field allowed \<noteq> []"
  shows "map_of (dropdown_invalid (validation_results (check_dropdown_values lib df v))) field
           = Some (set_order lib (invalid_of df field allowed))"
    and "check_status_of ''dropdown_validation''
           (validation_results (check_dropdown_values lib df v)) = Some FAIL"
    and "errors (check_dropdown_values lib df v) \<noteq> []"
proof -
  let ?r = "fold (dropdown_step lib df) (dropdowns (schema v)) ([], v)"
  have l: "map_of (fst ?r) field = Some (set_order lib (invalid_of df field allowed))"
    using assms by (rule dropdown_fold_lookup)
  then have ne: "fst ?r \<noteq> []" by auto
  from l show "map_of (dropdown_invalid (validation_results (check_dropdown_values lib df v))) field
           = Some (set_order lib (invalid_of df field allowed))"
    by (simp add: dropdown_results)
  from ne show "check_status_of ''dropdown_validation''
           (validation_results (check_dropdown_values lib df v)) = Some FAIL"
    by (simp add: dropdown_results)
  have "field @ '': Invalid values found: '' @ join '', '' (set_order lib (invalid_of df field allowed))
           \<in> set (errors (snd ?r))"
    using assms(2,3,4) by (rule dropdown_fold_message)
  then show "errors (check_dropdown_values lib df v) \<noteq> []"
    by (auto simp: check_dropdown_values_def split_beta)
qed



section \<open>Numeric fields\<close>

lemma type_errors_nonempty:
  assumes "field \<in> set numeric_fields" "field \<in> set (columns df)"
    "c \<in> set (column df field)" "notna c" "\<not> to_numeric lib c"
  shows "type_errors lib df \<noteq> []"
proof -
  from assms(3,4,5) have "c \<in> set (non_numeric lib df field)"
    by (simp add: non_numeric_def)
  then have "length (non_numeric lib df field) > 0" by (auto simp: length_greater_0_conv)
  with assms(1,2) show ?thesis
    by (auto simp: type_errors_def)
qed

text \<open>A numeric field with a non-null cell that is no number makes the data-type status
  \<open>FAIL\<close>, and the check leaves the error list as it was.\<close>

lemma data_types_fail:
  assumes "field \<in> set numeric_fields" "field \<in> set (columns df)"
    "c \<in> set (column df field)" "notna c" "\<not> to_numeric lib c"
  shows "check_status_of ''data_types'' (validation_results (check_data_types lib df v)) = Some FAIL"
    and "errors (check_data_types lib df v) = errors v"
  using type_errors_nonempty [OF assms] by (simp_all add: data_types_results)

text \<open>
  C2, evaluated at a focus-group file whose only participant count is the text \<^verbatim>\<open>abc\<close>:
  the data-type status is \<open>FAIL\<close>, but no error is recorded and the overall status is
  \<open>VALIDATED\<close>, where the claim has \<open>REJECTED\<close>.
\<close>

theorem non_numeric_cell_not_rejected:
  "validate_file demo_lib focus_file = Inr (projr (validate_file demo_lib focus_file)) \<and>
   check_status_of ''data_types'' (report_results (projr (validate_file demo_lib focus_file)))
     = Some FAIL \<and>
   report_errors (projr (validate_file demo_lib focus_file)) = [] \<and>
   checks_failed (projr (validate_file demo_lib focus_file)) = 1 \<and>
   status (projr (validate_file demo_lib focus_file)) = VALIDATED"
  by code_simp

section \<open>The single-file entry point\<close>

lemma identify_template_registered:
  "identify_template name = Inr t \<Longrightarrow> t \<in> fst ` set TEMPLATE_SCHEMAS"
  by (auto simp: identify_template_def find_Some_iff split: option.splits)

lemma schema_for_registered:
  "t \<in> fst ` set TEMPLATE_SCHEMAS \<Longrightarrow> (t, schema_for t) \<in> set TEMPLATE_SCHEMAS"
  by (auto simp: schema_for_def dest: map_of_SomeD weak_map_of_SomeI split: option.splits)

lemma registry_has_targets:
  "(''1_Organization_Registry'', s) \<in> set TEMPLATE_SCHEMAS \<Longrightarrow> enhancement_targets s \<noteq> None"
  by (auto simp: TEMPLATE_SCHEMAS_def schema_1_Organization_Registry_def)

lemma new_validator_Inl:
  "identify_template (file_name f) = Inl e \<Longrightarrow> new_validator f = Inl e"
  by (simp add: new_validator_def)

lemma new_validator_Inr:
  "identify_template (file_name f) = Inr t \<Longrightarrow>
   new_validator f = Inr (fresh_validator (file_name f) t (schema_for t))"
  by (simp add: new_validator_def fresh_validator_def)

lemma fresh_validator_fields [simp]:
  "errors (fresh_validator n t s) = []"
  "warnings (fresh_validator n t s) = []"
  "validation_results (fresh_validator n t s) = []"
  "schema (fresh_validator n t s) = s"
  "template_type (fresh_validator n t s) = t"
  by (simp_all add: fresh_validator_def)

lemma run_checks_total:
  assumes "distinct (columns df)"
    and "template_type v = ''1_Organization_Registry'' \<longrightarrow> enhancement_targets (schema v) \<noteq> None"
  shows "\<exists>v'. run_checks lib df v = Inr v'"
proof -
  let ?v5 = "check_quality_metrics df (check_dropdown_values lib df (check_completeness lib df
               (check_data_types lib df (check_schema_compliance df v))))"
  have s: "schema ?v5 = schema v" "template_type ?v5 = template_type v" by simp_all
  show ?thesis
  proof (cases "template_type v = ''1_Organization_Registry'' \<and> two_tab (schema v)")
    case True
    with assms(2) obtain t where "enhancement_targets (schema ?v5) = Some t"
      by (auto simp: s)
    then obtain v' where "check_enhancement_targets lib df ?v5 = Inr v'"
      using enhancement_total by blast
    with True assms(1) show ?thesis
      by (simp add: run_checks_def Let_def s)
  next
    case False
    with assms(1) show ?thesis
      by (auto simp: run_checks_def Let_def s)
  qed
qed

lemma run_checks_registered:
  assumes "distinct (columns df)" "identify_template name = Inr t"
  shows "\<exists>v'. run_checks lib df (fresh_validator name t (schema_for t)) = Inr v'"
proof (rule run_checks_total [OF assms(1)])
  show "template_type (fresh_validator name t (schema_for t)) = ''1_Organization_Registry'' \<longrightarrow>
        enhancement_targets (schema (fresh_validator name t (schema_for t))) \<noteq> None"
    using schema_for_registered [OF identify_template_registered [OF assms(2)]]
    by (auto dest: registry_has_targets)
qed

lemma run_checks_repeated_label:
  "\<not> distinct (columns df) \<Longrightarrow> run_checks lib df v = Inl LabelError"
  by (simp add: run_checks_def)

lemma validate_early:
  "content f = Load_failed msg \<Longrightarrow>
     validate lib f v = Inr (generate_report (add_error (''Failed to load file: '' @ msg) v))"
  "content f = Workbook sheets \<Longrightarrow> map_of sheets (sheet_name (schema v)) = None \<Longrightarrow>
     validate lib f v =
       Inr (generate_report (add_error (''Expected worksheet '' @ [CHR 0x27]
              @ sheet_name (schema v) @ [CHR 0x27] @ '' not found'') v))"
  "content f = Workbook sheets \<Longrightarrow> map_of sheets (sheet_name (schema v)) = Some ws \<Longrightarrow>
   worksheet_to_dataframe ws = Inl e \<Longrightarrow>
     validate lib f v =
       Inr (generate_report (add_error (''Failed to parse worksheet: '' @ exn_text e) v))"
  "content f = Workbook sheets \<Longrightarrow> map_of sheets (sheet_name (schema v)) = Some ws \<Longrightarrow>
   worksheet_to_dataframe ws = Inr df \<Longrightarrow>
     validate lib f v = then_do (run_checks lib df v) (\<lambda>v'. Inr (generate_report v'))"
  by (simp_all add: validate_def)

lemma run_checks_no_required:
  assumes "run_checks lib df v = Inr v'" "present_required (schema v) df = []"
  shows "''No required fields found in submission'' \<in> set (errors v')"
proof -
  let ?v2 = "check_data_types lib df (check_schema_compliance df v)"
  obtain es where "errors v' = errors (check_completeness lib df ?v2) @ es"
    using run_checks_Inr(2) [OF assms(1)] dropdown_errors by metis
  with assms(2) show ?thesis by (simp add: completeness_errors)
qed

lemma completeness_warnings_none:
  "present_required (schema v) df = [] \<Longrightarrow> warnings (check_completeness lib df v) = warnings v"
  by (simp add: check_completeness_def)

lemma batch_loop_map: "batch_loop lib fs reports = reports @ map (batch_one lib) fs"
  by (induction fs arbitrary: reports) simp_all

lemma validate_file_status: "validate_file lib f = Inr r \<Longrightarrow> status r \<noteq> ERROR"
  using validate_file_is_report [of lib f r]
  by (auto simp: generate_report_status split: if_splits)

text \<open>
  C1, as the code has it. An unknown template is raised out of the constructor and leaves
  the entry point as the exception. For a file name with a registered prefix the entry point
  returns a report: an unreadable workbook, a missing sheet and an unparsable worksheet each
  leave their message as the only error, no check result, and status \<open>REJECTED\<close>; a table
  with distinct labels and none of the required fields has the message of the completeness
  check among its errors and status \<open>REJECTED\<close>.
\<close>

theorem validate_file_hard_errors:
  "(identify_template (file_name f) = Inl e \<longrightarrow> validate_file lib f = Inl e) \<and>
   (identify_template (file_name f) = Inr t \<longrightarrow>
      (content f = Load_failed msg \<longrightarrow>
         (\<exists>r. validate_file lib f = Inr r \<and> report_errors r = [''Failed to load file: '' @ msg]
              \<and> report_results r = [] \<and> status r = REJECTED)) \<and>
      (content f = Workbook sheets \<and> map_of sheets (sheet_name (schema_for t)) = None \<longrightarrow>
         (\<exists>r. validate_file lib f = Inr r
              \<and> report_errors r = [''Expected worksheet '' @ [CHR 0x27] @ sheet_name (schema_for t)
                                      @ [CHR 0x27] @ '' not found'']
              \<and> report_results r = [] \<and> status r = REJECTED)) \<and>
      (content f = Workbook sheets \<and> map_of sheets (sheet_name (schema_for t)) = Some ws \<and>
       worksheet_to_dataframe ws = Inl e' \<longrightarrow>
         (\<exists>r. validate_file lib f = Inr r
              \<and> report_errors r = [''Failed to parse worksheet: '' @ exn_text e']
              \<and> report_results r = [] \<and> status r = REJECTED)) \<and>
      (content f = Workbook sheets \<and> map_of sheets (sheet_name (schema_for t)) = Some ws \<and>
       worksheet_to_dataframe ws = Inr df \<and> distinct (columns df) \<and>
       present_required (schema_for t) df = [] \<longrightarrow>
         (\<exists>r. validate_file lib f = Inr r
              \<and> ''No required fields found in submission'' \<in> set (report_errors r)
              \<and> status r = REJECTED)))"
proof (intro conjI impI)
  assume "identify_template (file_name f) = Inl e"
  then show "validate_file lib f = Inl e"
    by (simp add: validate_file_def new_validator_Inl)
next
  let ?v = "fresh_validator (file_name f) t (schema_for t)"
  assume t: "identify_template (file_name f) = Inr t"
  then have vf: "validate_file lib f = validate lib f ?v"
    by (simp add: validate_file_def new_validator_Inr)
  {
    assume "content f = Load_failed msg"
    then show "\<exists>r. validate_file lib f = Inr r \<and> report_errors r = [''Failed to load file: '' @ msg]
              \<and> report_results r = [] \<and> status r = REJECTED"
      by (simp add: vf validate_early(1) generate_report_status)
  next
    assume "content f = Workbook sheets \<and> map_of sheets (sheet_name (schema_for t)) = None"
    then show "\<exists>r. validate_file lib f = Inr r
              \<and> report_errors r = [''Expected worksheet '' @ [CHR 0x27] @ sheet_name (schema_for t)
                                      @ [CHR 0x27] @ '' not found'']
              \<and> report_results r = [] \<and> status r = REJECTED"
      by (simp add: vf validate_early(2) [of f sheets ?v] generate_report_status)
  next
    assume "content f = Workbook sheets \<and> map_of sheets (sheet_name (schema_for t)) = Some ws \<and>
       worksheet_to_dataframe ws = Inl e'"
    then show "\<exists>r. validate_file lib f = Inr r
              \<and> report_errors r = [''Failed to parse worksheet: '' @ exn_text e']
              \<and> report_results r = [] \<and> status r = REJECTED"
      by (simp add: vf validate_early(3) [of f sheets ?v ws e'] generate_report_status)
  next
    assume a: "content f = Workbook sheets \<and> map_of sheets (sheet_name (schema_for t)) = Some ws \<and>
       worksheet_to_dataframe ws = Inr df \<and> distinct (columns df) \<and>
       present_required (schema_for t) df = []"
    then obtain v' where run: "run_checks lib df ?v = Inr v'"
      using run_checks_registered [of df "file_name f" t lib] t by blast
    from a have "validate lib f ?v = then_do (run_checks lib df ?v) (\<lambda>v'. Inr (generate_report v'))"
      by (simp add: validate_early(4) [of f sheets ?v ws df])
    with run have r: "validate_file lib f = Inr (generate_report v')"
      by (simp add: vf)
    from a have "''No required fields found in submission'' \<in> set (errors v')"
      using run_checks_no_required [OF run] by simp
    with r show "\<exists>r. validate_file lib f = Inr r
              \<and> ''No required fields found in submission'' \<in> set (report_errors r)
              \<and> status r = REJECTED"
      by (auto simp: generate_report_status)
  }
qed

theorem validate_file_hard_errors_witness:
  "identify_template (file_name nonexistent_file)
     = Inl (ValueError ''Unknown template type: nonexistent_file.xlsx'') \<and>
   validate_file demo_lib nonexistent_file
     = Inl (ValueError ''Unknown template type: nonexistent_file.xlsx'') \<and>
   identify_template (file_name (corrupt_named ''5_Focus_BG41.xlsx'')) = Inr ''5_Focus_Group_Notes'' \<and>
   (\<exists>r. validate_file demo_lib (corrupt_named ''5_Focus_BG41.xlsx'') = Inr r \<and>
        report_errors r = [''Failed to load file: File is not a zip file''] \<and>
        status r = REJECTED)"
proof -
  have h1: "identify_template (file_name nonexistent_file)
     = Inl (ValueError ''Unknown template type: nonexistent_file.xlsx'')"
    by code_simp
  have h2: "identify_template (file_name (corrupt_named ''5_Focus_BG41.xlsx''))
     = Inr ''5_Focus_Group_Notes''"
    by code_simp
  have h3: "content (corrupt_named ''5_Focus_BG41.xlsx'') = Load_failed ''File is not a zip file''"
    by (simp add: corrupt_named_def)
  from validate_file_hard_errors [of nonexistent_file _ demo_lib] h1
  have a: "validate_file demo_lib nonexistent_file
     = Inl (ValueError ''Unknown template type: nonexistent_file.xlsx'')"
    by simp
  from validate_file_hard_errors [of "corrupt_named ''5_Focus_BG41.xlsx''" _ demo_lib
         "''5_Focus_Group_Notes''" "''File is not a zip file''"] h2 h3
  have b: "\<exists>r. validate_file demo_lib (corrupt_named ''5_Focus_BG41.xlsx'') = Inr r \<and>
        report_errors r = [''Failed to load file: File is not a zip file''] \<and>
        status r = REJECTED"
    by auto
  from h1 h2 a b show ?thesis by simp
qed

text \<open>
  C1 as stated fails at the file of the repository's own error-handling test: its name matches
  no template prefix, and the entry point raises instead of returning a report.
\<close>

theorem unknown_template_raises:
  "validate_file demo_lib nonexistent_file
     = Inl (ValueError ''Unknown template type: nonexistent_file.xlsx'')"
  by code_simp




section \<open>Batches\<close>

text \<open>
  C7, as the code has it. The batch result has one entry per file found, in order, and is
  always returned. An entry has status \<open>ERROR\<close> exactly when the single-file entry point
  raised for that file, as it does for a name that matches no template prefix. A workbook
  that does not load under a name with a registered prefix is caught inside \<^verbatim>\<open>validate\<close>
  and yields a report with status \<open>REJECTED\<close>, not an \<open>ERROR\<close> entry.
\<close>

theorem validate_batch_entries:
  "validate_batch lib directory = map (batch_one lib) (excel_files directory) \<and>
   length (validate_batch lib directory) = length (excel_files directory) \<and>
   (entry_status (batch_one lib f) = ERROR \<longleftrightarrow> (\<exists>e. validate_file lib f = Inl e)) \<and>
   (identify_template (file_name f) = Inl e \<longrightarrow>
      batch_one lib f = Error_entry (file_name f) [exn_text e]) \<and>
   (identify_template (file_name f) = Inr t \<and> content f = Load_failed msg \<longrightarrow>
      (\<exists>r. batch_one lib f = Report r \<and> report_errors r = [''Failed to load file: '' @ msg]
           \<and> status r = REJECTED))"
proof (intro conjI impI)
  show m: "validate_batch lib directory = map (batch_one lib) (excel_files directory)"
    by (simp add: validate_batch_def batch_loop_map)
  show "length (validate_batch lib directory) = length (excel_files directory)"
    by (simp add: m)
  show "entry_status (batch_one lib f) = ERROR \<longleftrightarrow> (\<exists>e. validate_file lib f = Inl e)"
    by (cases "validate_file lib f") (auto simp: batch_one_def dest: validate_file_status)
next
  assume "identify_template (file_name f) = Inl e"
  then show "batch_one lib f = Error_entry (file_name f) [exn_text e]"
    by (simp add: batch_one_def validate_file_def new_validator_Inl)
next
  assume "identify_template (file_name f) = Inr t \<and> content f = Load_failed msg"
  then show "\<exists>r. batch_one lib f = Report r \<and> report_errors r = [''Failed to load file: '' @ msg]
           \<and> status r = REJECTED"
    by (simp add: batch_one_def validate_file_def new_validator_Inr validate_early(1)
          generate_report_status)
qed

theorem validate_batch_entries_witness:
  "identify_template (file_name (corrupt_named ''broken.xlsx''))
     = Inl (ValueError ''Unknown template type: broken.xlsx'') \<and>
   batch_one demo_lib (corrupt_named ''broken.xlsx'')
     = Error_entry ''broken.xlsx'' [''Unknown template type: broken.xlsx''] \<and>
   identify_template (file_name (corrupt_named ''5_Focus_BG41.xlsx'')) = Inr ''5_Focus_Group_Notes'' \<and>
   entry_status (batch_one demo_lib (corrupt_named ''5_Focus_BG41.xlsx'')) = REJECTED \<and>
   length (validate_batch demo_lib batch_directory) = 4"
proof -
  have h1: "identify_template (file_name (corrupt_named ''broken.xlsx''))
     = Inl (ValueError ''Unknown template type: broken.xlsx'')"
    by code_simp
  have h2: "identify_template (file_name (corrupt_named ''5_Focus_BG41.xlsx''))
     = Inr ''5_Focus_Group_Notes''"
    by code_simp
  have h3: "content (corrupt_named ''5_Focus_BG41.xlsx'') = Load_failed ''File is not a zip file''"
    by (simp add: corrupt_named_def)
  have n: "file_name (corrupt_named ''broken.xlsx'') = ''broken.xlsx''"
    by (simp add: corrupt_named_def)
  have l: "length (excel_files batch_directory) = 4"
    by code_simp
  from validate_batch_entries [of demo_lib batch_directory "corrupt_named ''broken.xlsx''"] h1 n
  have a: "batch_one demo_lib (corrupt_named ''broken.xlsx'')
     = Error_entry ''broken.xlsx'' [''Unknown template type: broken.xlsx'']"
    by (simp add: exn_text_def)
  from validate_batch_entries [of demo_lib batch_directory "corrupt_named ''5_Focus_BG41.xlsx''"
         _ "''5_Focus_Group_Notes''" "''File is not a zip file''"] h2 h3 l
  have b: "entry_status (batch_one demo_lib (corrupt_named ''5_Focus_BG41.xlsx'')) = REJECTED \<and>
           length (validate_batch demo_lib batch_directory) = 4"
    by auto
  from h1 h2 a b show ?thesis by simp
qed

text \<open>
  C7 as stated fails at a directory of three good files and a corrupt one named like a
  focus-group file: four entries come back, the corrupt file's entry is \<open>REJECTED\<close>, and
  none has status \<open>ERROR\<close>.
\<close>

theorem corrupt_file_is_rejected_not_error:
  "map entry_status (validate_batch demo_lib batch_directory)
     = [VALIDATED, VALIDATED, VALIDATED, REJECTED]"
  by code_simp

section \<open>The extractor without data rows\<close>

lemma worksheet_to_dataframe_no_rows:
  "data_rows (snd (locate_header ws)) ws = [] \<Longrightarrow>
   worksheet_to_dataframe ws = Inr \<lparr>columns = [], rows = []\<rparr>"
  by (simp add: worksheet_to_dataframe_def DataFrame_def split_beta)

text \<open>
  C4, as the code has it. When no data row survives the filtering, whether or not a header
  row was found, the column labels are cut to \<^verbatim>\<open>headers[:0]\<close>: the table has no rows and
  no columns, the extracted names are dropped, and the schema-compliance check reports every
  required field as missing.
\<close>

theorem no_data_rows_no_columns:
  assumes "data_rows (snd (locate_header ws)) ws = []"
  shows "worksheet_to_dataframe ws = Inr \<lparr>columns = [], rows = []\<rparr> \<and>
         errors (check_schema_compliance \<lparr>columns = [], rows = []\<rparr> v) =
           errors v @ (if required_fields (schema v) \<noteq> []
                       then [''Missing required columns: '' @ join '', '' (required_fields (schema v))]
                       else [])"
  using assms by (simp add: worksheet_to_dataframe_no_rows schema_compliance_errors)

theorem no_data_rows_no_columns_witness:
  "fst (locate_header header_only_sheet)
     = [''Stakeholder_ID'', ''Name'', ''Organization'', ''Role'', ''Influence'', ''Interest''] \<and>
   data_rows (snd (locate_header header_only_sheet)) header_only_sheet = [] \<and>
   worksheet_to_dataframe header_only_sheet = Inr \<lparr>columns = [], rows = []\<rparr> \<and>
   errors (check_schema_compliance \<lparr>columns = [], rows = []\<rparr>
             (fresh_validator ''2_empty.xlsx'' ''2_Stakeholder_Mapping'' schema_2_Stakeholder_Mapping))
     = [''Missing required columns: Stakeholder_ID, Name, Organization, Role, Influence, Interest'']"
proof -
  have h: "data_rows (snd (locate_header header_only_sheet)) header_only_sheet = []"
    by code_simp
  have n: "fst (locate_header header_only_sheet)
     = [''Stakeholder_ID'', ''Name'', ''Organization'', ''Role'', ''Influence'', ''Interest'']"
    by code_simp
  have j: "''Missing required columns: '' @ join '', '' (required_fields schema_2_Stakeholder_Mapping)
     = ''Missing required columns: Stakeholder_ID, Name, Organization, Role, Influence, Interest''"
    by code_simp
  have r: "required_fields schema_2_Stakeholder_Mapping \<noteq> []"
    by code_simp
  from no_data_rows_no_columns [OF h,
         of "fresh_validator ''2_empty.xlsx'' ''2_Stakeholder_Mapping'' schema_2_Stakeholder_Mapping"]
       h n j r
  show ?thesis by simp
qed

text \<open>
  C4 as stated fails at a sheet that holds only the header row of a stakeholder mapping: the
  header is found and no data row follows, yet the table comes out without any column.
\<close>

theorem header_names_not_preserved:
  "fst (locate_header header_only_sheet)
     = [''Stakeholder_ID'', ''Name'', ''Organization'', ''Role'', ''Influence'', ''Interest''] \<and>
   snd (locate_header header_only_sheet) = 1 \<and>
   data_rows 1 header_only_sheet = [] \<and>
   worksheet_to_dataframe header_only_sheet = Inr \<lparr>columns = [], rows = []\<rparr>"
  by code_simp

section \<open>Overall completeness\<close>

lemma fold_update_keys:
  "fst ` set (fold (\<lambda>k al. AList.update k (g k) al) xs acc) = set xs \<union> fst ` set acc"
  by (induction xs arbitrary: acc) (auto simp: dom_update)

lemma fold_update_distinct:
  "distinct (map fst acc) \<Longrightarrow>
   distinct (map fst (fold (\<lambda>k al. AList.update k (g k) al) xs acc))"
  by (induction xs arbitrary: acc) (simp_all add: distinct_update)

lemma fold_update_values:
  "\<forall>(k, v) \<in> set acc. v = g k \<Longrightarrow>
   \<forall>(k, v) \<in> set (fold (\<lambda>k al. AList.update k (g k) al) xs acc). v = g k"
proof (induction xs arbitrary: acc)
  case Nil
  then show ?case by simp
next
  case (Cons x xs)
  have "set (AList.update x (g x) acc) \<subseteq> insert (x, g x) (set acc)"
    by (induction acc) auto
  with Cons.prems have "\<forall>(k, v) \<in> set (AList.update x (g x) acc). v = g k" by auto
  then show ?case using Cons.IH by simp
qed

lemma fold_update_sum:
  fixes h :: "'v \<Rightarrow> nat"
  shows "sum_list (map (\<lambda>(k, v). h v) (fold (\<lambda>k al. AList.update k (g k) al) xs []))
           = (\<Sum>k \<in> set xs. h (g k))"
proof -
  let ?al = "fold (\<lambda>k al. AList.update k (g k) al) xs []"
  have v: "\<forall>(k, v) \<in> set ?al. v = g k" by (rule fold_update_values) simp
  have d: "distinct (map fst ?al)" by (rule fold_update_distinct) simp
  have k: "set (map fst ?al) = set xs" using fold_update_keys [of g xs "[]"] by simp
  have "sum_list (map (\<lambda>(k, v). h v) ?al) = sum_list (map (\<lambda>p. h (g (fst p))) ?al)"
    by (rule arg_cong [where f = sum_list], rule map_cong) (use v in auto)
  also have "\<dots> = sum_list (map (\<lambda>k. h (g k)) (map fst ?al))"
    by (simp add: comp_def)
  also have "\<dots> = (\<Sum>k \<in> set (map fst ?al). h (g k))"
    using d by (rule sum_list_distinct_conv_sum_set)
  finally show ?thesis using k by simp
qed

lemma length_column [simp]: "length (column df field) = length (rows df)"
  by (simp add: column_def)

lemma length_filter_eq_iff: "length (filter P xs) = length xs \<longleftrightarrow> (\<forall>x \<in> set xs. P x)"
proof
  assume "length (filter P xs) = length xs"
  then show "\<forall>x \<in> set xs. P x"
    using length_filter_less [of _ xs P] by fastforce
next
  assume "\<forall>x \<in> set xs. P x"
  then show "length (filter P xs) = length xs" by simp
qed

lemma total_filled_eq:
  "sum_list (map (\<lambda>(f, st). filled st) (field_completeness lib sch df))
     = (\<Sum>f \<in> set (present_required sch df). length (filter notna (column df f)))"
  unfolding field_completeness_def
  using fold_update_sum [of filled
      "\<lambda>field. \<lparr>filled = length (filter notna (column df field)), total = length (rows df),
                 completeness = round3 lib (field_ratio df field)\<rparr>" "present_required sch df"]
  by simp

lemma total_cells_eq:
  "sum_list (map (\<lambda>(f, st). total st) (field_completeness lib sch df))
     = (\<Sum>f \<in> set (present_required sch df). length (rows df))"
  unfolding field_completeness_def
  using fold_update_sum [of total
      "\<lambda>field. \<lparr>filled = length (filter notna (column df field)), total = length (rows df),
                 completeness = round3 lib (field_ratio df field)\<rparr>" "present_required sch df"]
  by simp

lemma overall_completeness_eq:
  "overall_completeness lib sch df =
     (if (\<Sum>f \<in> set (present_required sch df). length (rows df)) > 0
      then of_nat (\<Sum>f \<in> set (present_required sch df). length (filter notna (column df f)))
           / of_nat (\<Sum>f \<in> set (present_required sch df). length (rows df))
      else 0)"
  by (simp only: overall_completeness_def Let_def total_filled_eq total_cells_eq)

lemma filled_le_cells:
  "(\<Sum>f \<in> S. length (filter notna (column df f))) \<le> (\<Sum>f \<in> S. length (rows df))"
  by (rule sum_mono) (metis length_column length_filter_le)

lemma filled_eq_cells_iff:
  assumes "finite S"
  shows "(\<Sum>f \<in> S. length (filter notna (column df f))) = (\<Sum>f \<in> S. length (rows df))
         \<longleftrightarrow> (\<forall>f \<in> S. \<forall>c \<in> set (column df f). notna c)"
proof -
  let ?c = "\<lambda>f. length (filter notna (column df f))"
  let ?n = "length (rows df)"
  have le: "?c f \<le> ?n" for f by (metis length_column length_filter_le)
  have "(\<Sum>f \<in> S. ?c f) + (\<Sum>f \<in> S. ?n - ?c f) = (\<Sum>f \<in> S. ?n)"
    using le by (simp add: sum.distrib [symmetric])
  then have "(\<Sum>f \<in> S. ?c f) = (\<Sum>f \<in> S. ?n) \<longleftrightarrow> (\<Sum>f \<in> S. ?n - ?c f) = 0"
    by linarith
  also have "\<dots> \<longleftrightarrow> (\<forall>f \<in> S. ?n - ?c f = 0)"
    using assms by simp
  also have "\<dots> \<longleftrightarrow> (\<forall>f \<in> S. ?c f = length (column df f))"
    using le by (auto simp: le_antisym)
  also have "\<dots> \<longleftrightarrow> (\<forall>f \<in> S. \<forall>c \<in> set (column df f). notna c)"
    by (simp only: length_filter_eq_iff)
  finally show ?thesis .
qed

text \<open>The overall completeness of any table in which a required field is among the columns;
  the case without rows is the branch \<^verbatim>\<open>else 0\<close> of the source.\<close>

lemma overall_completeness_any_table:
  assumes "present_required sch df \<noteq> []"
  shows "overall_completeness lib sch df =
           (if rows df \<noteq> []
            then of_nat (\<Sum>f \<in> set (present_required sch df). length (filter notna (column df f)))
                 / of_nat (\<Sum>f \<in> set (present_required sch df). length (rows df))
            else 0) \<and>
         0 \<le> overall_completeness lib sch df \<and> overall_completeness lib sch df \<le> 1 \<and>
         (overall_completeness lib sch df = 1 \<longleftrightarrow>
            rows df \<noteq> [] \<and>
            (\<forall>f \<in> set (present_required sch df). \<forall>c \<in> set (column df f). notna c)) \<and>
         (rows df = [] \<longrightarrow> field_ratio df field = 0 \<and> overall_completeness lib sch df = 0)"
proof -
  let ?S = "set (present_required sch df)"
  let ?a = "\<Sum>f \<in> ?S. length (filter notna (column df f))"
  let ?b = "\<Sum>f \<in> ?S. length (rows df)"
  have card: "card ?S > 0" using assms by (simp add: card_gt_0_iff)
  have pos: "?b > 0 \<longleftrightarrow> rows df \<noteq> []" using card by simp
  have le: "?a \<le> ?b" by (rule filled_le_cells)
  have eq: "?a = ?b \<longleftrightarrow> (\<forall>f \<in> ?S. \<forall>c \<in> set (column df f). notna c)"
    by (rule filled_eq_cells_iff) simp
  have o: "overall_completeness lib sch df = (if rows df \<noteq> [] then of_nat ?a / of_nat ?b else 0)"
    by (simp only: overall_completeness_eq pos)
  have bounds: "0 \<le> overall_completeness lib sch df \<and> overall_completeness lib sch df \<le> 1"
  proof (cases "rows df = []")
    case True
    then show ?thesis by (simp add: o)
  next
    case False
    then have "?b > 0" using pos by simp
    moreover have "(of_nat ?a :: rat) \<le> of_nat ?b" using le by (simp only: of_nat_le_iff)
    ultimately have "(of_nat ?a :: rat) / of_nat ?b \<le> 1"
      by (simp only: divide_le_eq_1 of_nat_0_less_iff) simp
    moreover have "0 \<le> (of_nat ?a :: rat) / of_nat ?b"
      by (rule divide_nonneg_nonneg) (simp_all only: of_nat_0_le_iff)
    ultimately show ?thesis using False by (simp only: o if_True simp_thms)
  qed
  have one: "overall_completeness lib sch df = 1 \<longleftrightarrow>
            rows df \<noteq> [] \<and> (\<forall>f \<in> ?S. \<forall>c \<in> set (column df f). notna c)"
  proof (cases "rows df = []")
    case True
    then show ?thesis by (simp add: o)
  next
    case False
    with pos have "0 < ?b" by blast
    then have b: "?b \<noteq> 0" by (simp only: neq0_conv)
    have "(of_nat ?a :: rat) / of_nat ?b = 1 \<longleftrightarrow> ?a = ?b"
      using b by (simp only: divide_eq_1_iff of_nat_eq_iff of_nat_eq_0_iff) simp
    then show ?thesis using False eq by (simp only: o if_True simp_thms)
  qed
  have zero: "rows df = [] \<longrightarrow> field_ratio df field = 0 \<and> overall_completeness lib sch df = 0"
    by (simp add: o field_ratio_def)
  from o bounds one zero show ?thesis by blast
qed

text \<open>A table that the extractor returns has a row as soon as it has a column.\<close>

lemma extractor_rows_nonempty:
  assumes "worksheet_to_dataframe ws = Inr df" and "columns df \<noteq> []"
  shows "rows df \<noteq> []"
proof (cases "data_rows (snd (locate_header ws)) ws = []")
  case True
  then have "worksheet_to_dataframe ws = Inr \<lparr>columns = [], rows = []\<rparr>"
    by (rule worksheet_to_dataframe_no_rows)
  with assms show ?thesis by auto
next
  case False
  with assms(1) show ?thesis
    by (auto simp: worksheet_to_dataframe_def DataFrame_def Let_def split_beta then_do_eq_Inr
             split: if_splits)
qed



end
